theory Spec2Isabelle
  imports Complex_Main "HOL-Library.Monad_Syntax"
begin

section \<open>JavaScript strings and numbers\<close>

text \<open>
  A JavaScript string is modelled as a \<^typ>\<open>string\<close>; a \<^typ>\<open>char\<close> stands for a
  UTF-16 code unit below 256. The integers the program computes (line numbers,
  addresses) are \<^typ>\<open>int\<close>; they stay far below \<open>2 ^ 53\<close>, where JavaScript numbers
  are exact. \<open>NaN\<close> and \<open>undefined\<close> are \<open>None\<close>.
\<close>

definition js_space_chars :: string where
  "js_space_chars = [CHR 0x09, CHR 0x0A, CHR 0x0B, CHR 0x0C, CHR 0x0D, CHR 0x20, CHR 0xA0]"

text \<open>The class \<open>\s\<close> of regular expressions, also what \<open>trim()\<close> removes.\<close>

definition js_space :: "char \<Rightarrow> bool" where
  "js_space c = (c \<in> set js_space_chars)"

text \<open>The class \<open>\d\<close>.\<close>

definition js_digit :: "char \<Rightarrow> bool" where
  "js_digit c = (c \<in> set ''0123456789'')"

definition js_upper :: "char \<Rightarrow> bool" where
  "js_upper c = (c \<in> set ''ABCDEFGHIJKLMNOPQRSTUVWXYZ'')"

definition js_lower :: "char \<Rightarrow> bool" where
  "js_lower c = (c \<in> set ''abcdefghijklmnopqrstuvwxyz'')"

text \<open>The class \<open>[0-9A-Fa-f]\<close>.\<close>

definition js_hex :: "char \<Rightarrow> bool" where
  "js_hex c = (c \<in> set ''0123456789ABCDEFabcdef'')"

text \<open>The class \<open>\w\<close>, that is \<open>[A-Za-z0-9_]\<close>.\<close>

definition js_word :: "char \<Rightarrow> bool" where
  "js_word c = (js_upper c \<or> js_lower c \<or> js_digit c \<or> c = CHR ''_'')"

text \<open>The line terminators, which \<open>.\<close> does not match.\<close>

definition js_lineterm :: "char \<Rightarrow> bool" where
  "js_lineterm c = (c = CHR 0x0A \<or> c = CHR 0x0D)"

text \<open>
  \<open>toLowerCase()\<close>, one code unit at a time: the letters \<open>A-Z\<close> and the upper-case
  letters of Latin-1.
\<close>

definition latin1_upper :: string where
  "latin1_upper =
     [CHR 0xC0, CHR 0xC1, CHR 0xC2, CHR 0xC3, CHR 0xC4, CHR 0xC5, CHR 0xC6, CHR 0xC7,
      CHR 0xC8, CHR 0xC9, CHR 0xCA, CHR 0xCB, CHR 0xCC, CHR 0xCD, CHR 0xCE, CHR 0xCF,
      CHR 0xD0, CHR 0xD1, CHR 0xD2, CHR 0xD3, CHR 0xD4, CHR 0xD5, CHR 0xD6, CHR 0xD8,
      CHR 0xD9, CHR 0xDA, CHR 0xDB, CHR 0xDC, CHR 0xDD, CHR 0xDE]"

definition latin1_lower :: string where
  "latin1_lower =
     [CHR 0xE0, CHR 0xE1, CHR 0xE2, CHR 0xE3, CHR 0xE4, CHR 0xE5, CHR 0xE6, CHR 0xE7,
      CHR 0xE8, CHR 0xE9, CHR 0xEA, CHR 0xEB, CHR 0xEC, CHR 0xED, CHR 0xEE, CHR 0xEF,
      CHR 0xF0, CHR 0xF1, CHR 0xF2, CHR 0xF3, CHR 0xF4, CHR 0xF5, CHR 0xF6, CHR 0xF8,
      CHR 0xF9, CHR 0xFA, CHR 0xFB, CHR 0xFC, CHR 0xFD, CHR 0xFE]"

definition lower_char :: "char \<Rightarrow> char" where
  "lower_char c =
     (case map_of (zip (''ABCDEFGHIJKLMNOPQRSTUVWXYZ'' @ latin1_upper)
                       (''abcdefghijklmnopqrstuvwxyz'' @ latin1_lower)) c of
        Some l \<Rightarrow> l
      | None \<Rightarrow> c)"

definition toLowerCase :: "string \<Rightarrow> string" where
  "toLowerCase s = map lower_char s"

text \<open>
  \<open>toUpperCase()\<close> on the letters \<open>a-z\<close>. The program applies it to rendered numbers
  only, whose characters are digits, letters \<open>a-z\<close> and the sign.
\<close>

definition upper_char :: "char \<Rightarrow> char" where
  "upper_char c =
     (case map_of (zip ''abcdefghijklmnopqrstuvwxyz'' ''ABCDEFGHIJKLMNOPQRSTUVWXYZ'') c of
        Some u \<Rightarrow> u
      | None \<Rightarrow> c)"

definition toUpperCase :: "string \<Rightarrow> string" where
  "toUpperCase s = map upper_char s"

text \<open>\<open>s.trim()\<close>.\<close>

definition trim :: "string \<Rightarrow> string" where
  "trim s = rev (dropWhile js_space (rev (dropWhile js_space s)))"

text \<open>
  \<open>s.split(sep)\<close> for a separator of one character: the empty string splits into one
  empty piece.
\<close>

fun split_on :: "char \<Rightarrow> string \<Rightarrow> string list" where
  "split_on sep [] = [[]]"
| "split_on sep (c # cs) =
     (if c = sep then [] # split_on sep cs
      else (case split_on sep cs of
              [] \<Rightarrow> [[c]]
            | l # ls \<Rightarrow> (c # l) # ls))"

text \<open>\<open>s.split('\n')\<close>\<close>

definition split_lines :: "string \<Rightarrow> string list" where
  "split_lines s = split_on (CHR 0x0A) s"

text \<open>\<open>s.includes(t)\<close>.\<close>

fun str_includes :: "string \<Rightarrow> string \<Rightarrow> bool" where
  "str_includes [] t = (t = [])"
| "str_includes (c # cs) t = (take (length t) (c # cs) = t \<or> str_includes cs t)"

subsection \<open>\<open>Number.prototype.toString(radix)\<close> and \<open>parseInt(s, radix)\<close>\<close>

definition digit_chars :: string where
  "digit_chars = ''0123456789abcdefghijklmnopqrstuvwxyz''"

definition digit_char :: "nat \<Rightarrow> char" where
  "digit_char d = digit_chars ! d"

text \<open>The digits of a natural number, most significant first, in lower case.\<close>

fun digits_of :: "nat \<Rightarrow> nat \<Rightarrow> string" where
  "digits_of r n =
     (if r < 2 \<or> n < r then [digit_char n]
      else digits_of r (n div r) @ [digit_char (n mod r)])"

declare digits_of.simps [simp del]

definition toString :: "int \<Rightarrow> nat \<Rightarrow> string" where
  "toString n r = (if n < 0 then CHR ''-'' # digits_of r (nat (- n)) else digits_of r (nat n))"

text \<open>The position of a character in a string, counted from \<open>i\<close>.\<close>

fun index_of :: "string \<Rightarrow> char \<Rightarrow> nat \<Rightarrow> nat option" where
  "index_of [] c i = None"
| "index_of (x # xs) c i = (if x = c then Some i else index_of xs c (i + 1))"

text \<open>The value of a digit in a radix, if it is one; letters count in either case.\<close>

definition digit_val :: "nat \<Rightarrow> char \<Rightarrow> nat option" where
  "digit_val r c =
     (case index_of digit_chars (lower_char c) 0 of
        None \<Rightarrow> None
      | Some d \<Rightarrow> if d < r \<and> (js_digit c \<or> js_upper c \<or> js_lower c) then Some d else None)"

definition is_digit :: "nat \<Rightarrow> char \<Rightarrow> bool" where
  "is_digit r c = (digit_val r c \<noteq> None)"

fun digits_value :: "nat \<Rightarrow> nat \<Rightarrow> string \<Rightarrow> nat" where
  "digits_value r acc [] = acc"
| "digits_value r acc (c # cs) =
     digits_value r (acc * r + (case digit_val r c of Some d \<Rightarrow> d | None \<Rightarrow> 0)) cs"

text \<open>
  \<open>parseInt(s, radix)\<close> for a radix between 2 and 36: leading white space is skipped, a
  sign is read, for radix 16 a prefix \<open>0x\<close> or \<open>0X\<close> is dropped, and the longest prefix
  of digits is the value; without a digit the result is \<open>NaN\<close>.
\<close>

definition strip_0x :: "nat \<Rightarrow> string \<Rightarrow> string" where
  "strip_0x r s =
     (case s of
        c # d # rest \<Rightarrow>
          if r = 16 \<and> c = CHR ''0'' \<and> (d = CHR ''x'' \<or> d = CHR ''X'') then rest else s
      | _ \<Rightarrow> s)"

definition parseInt :: "string \<Rightarrow> nat \<Rightarrow> int option" where
  "parseInt s r =
     (let t = dropWhile js_space s;
          neg = (case t of c # _ \<Rightarrow> c = CHR ''-'' | [] \<Rightarrow> False);
          u = (case t of
                 c # rest \<Rightarrow> if c = CHR ''-'' \<or> c = CHR ''+'' then rest else t
               | [] \<Rightarrow> t);
          ds = takeWhile (is_digit r) (strip_0x r u)
      in if ds = [] then None
         else Some (if neg then - int (digits_value r 0 ds) else int (digits_value r 0 ds)))"

subsection \<open>Rendering an address\<close>

text \<open>
  Addresses are rendered by \<open>address.toString(16).toUpperCase()\<close>
  (\<open>formatBreakpointsForEmulator\<close>, \<open>formatBreakpointArgs\<close>, \<open>prepareEmulatorArgs\<close>), with
  no padding.
\<close>

definition renderAddress :: "int \<Rightarrow> string" where
  "renderAddress x = toUpperCase (toString x 16)"

text \<open>A rendered address uses the characters \<open>0-9A-F\<close> only.\<close>

definition upper_hex :: "char \<Rightarrow> bool" where
  "upper_hex c = (c \<in> set ''0123456789ABCDEF'')"

section \<open>The host: files, settings, breakpoints\<close>

text \<open>
  A value read from JSON or from the settings store; \<open>undefined\<close> is \<open>None\<close> of an
  option.
\<close>

datatype jsval =
    JNull
  | JBool bool
  | JNumber real
  | JString string
  | JArray "jsval list"
  | JObject "(string \<times> jsval) list"

text \<open>
  A path of the file system: absent, or present with its modification time
  (\<open>statSync(p).mtimeMs\<close>) and its text; the text is \<open>None\<close> when \<open>readFileSync\<close>
  throws.
\<close>

datatype fnode = Absent | Present real "string option"

text \<open>
  An entry of \<open>vscode.debug.breakpoints\<close>: a source breakpoint with
  \<open>location.uri.fsPath\<close> and the zero-based \<open>location.range.start.line\<close>, or a breakpoint
  of another class.
\<close>

datatype breakpoint = SourceBreakpoint string nat | OtherBreakpoint

text \<open>
  What the program reads from its host: the first workspace folder, the file system,
  \<open>vscode.workspace.getConfiguration('trs80gp').get\<close>, \<open>vscode.debug.breakpoints\<close>; and
  what Node does for it: \<open>path.join\<close>, \<open>path.basename(f, path.extname(f))\<close>,
  \<open>JSON.parse\<close> (\<open>None\<close> when it throws), whether \<open>mkdirSync\<close> throws, how a spawned
  assembler ends and the file system it leaves, whether \<open>spawn\<close> of the emulator gives
  a child with a \<open>pid\<close>, whether \<open>process.kill\<close> throws, and the time of \<open>new Date()\<close>.
\<close>

text \<open>
  What becomes of a call of \<open>spawn\<close>: it throws, with the message of the error (an
  argument Node refuses, such as a path with a null byte in it); or it returns a child
  that has the \<open>error\<close> event with the message of the error, when the process could not
  be started (no such file, no permission); or the child has the \<open>close\<close> event with the
  exit code (\<open>null\<close> when a signal ended the process) and all of its standard output
  and standard error.
\<close>

datatype proc_outcome =
  SpawnThrows string | SpawnError string | Closed "int option" string string

datatype signal = SIGTERM | SIGKILL

record env =
  workspaceFolder :: "string option"
  files :: "string \<Rightarrow> fnode"
  settings :: "string \<Rightarrow> jsval option"
  breakpoints :: "breakpoint list"
  pathJoin :: "string list \<Rightarrow> string"
  baseName :: "string \<Rightarrow> string"
  jsonParse :: "string \<Rightarrow> jsval option"
  mkdirThrows :: "string \<Rightarrow> bool"
  runProcess :: "string \<Rightarrow> string list \<Rightarrow> proc_outcome"
  filesAfterRun :: "string \<Rightarrow> fnode"
  spawnHasPid :: "string \<Rightarrow> bool"
  killThrows :: "nat \<Rightarrow> signal \<Rightarrow> bool"
  now :: nat

definition existsSync :: "env \<Rightarrow> string \<Rightarrow> bool" where
  "existsSync e p = (files e p \<noteq> Absent)"

text \<open>\<open>readFileSync(p, 'utf8')\<close>; \<open>None\<close> when it throws.\<close>

definition readFileSync :: "env \<Rightarrow> string \<Rightarrow> string option" where
  "readFileSync e p = (case files e p of Absent \<Rightarrow> None | Present m t \<Rightarrow> t)"

text \<open>\<open>statSync(p).mtimeMs\<close>; \<open>None\<close> when it throws.\<close>

definition statMtimeMs :: "env \<Rightarrow> string \<Rightarrow> real option" where
  "statMtimeMs e p = (case files e p of Absent \<Rightarrow> None | Present m t \<Rightarrow> Some m)"

section \<open>BreakpointManager\<close>

record SymbolInfo =
  address :: int
  label :: string
  sym_file :: "string option"
  sym_line :: "int option"

record BreakpointInfo =
  bp_address :: int
  bp_file :: string
  bp_line :: int
  bp_label :: "string option"

subsection \<open>The regular expressions\<close>

text \<open>
  Each piece consumes a prefix of the input and returns what is left, or fails. The
  quantifiers are greedy; where a shorter match of a quantifier could not make the rest
  of the pattern succeed, the longest one is the only one tried.
\<close>

text \<open>\<open>\s+\<close>\<close>

definition spaces1 :: "string \<Rightarrow> string option" where
  "spaces1 s =
     (case s of [] \<Rightarrow> None | c # r \<Rightarrow> if js_space c then Some (dropWhile js_space r) else None)"

text \<open>\<open>([0-9A-Fa-f]{4})\<close>\<close>

definition hex4 :: "string \<Rightarrow> (string \<times> string) option" where
  "hex4 s =
     (if 4 \<le> length s \<and> list_all js_hex (take 4 s) then Some (take 4 s, drop 4 s) else None)"

text \<open>
  An address is parsed by \<open>parseInt(addressStr, 16)\<close> from the four characters that a
  pattern has captured with \<open>([0-9A-Fa-f]{4})\<close>, in \<open>parseBdsFile\<close>, \<open>getEntryPoint\<close> and
  \<open>findAddressForSourceLine\<close> alike: a string is read as an address when it is such a
  capture, four hexadecimal digits and nothing more.
\<close>

definition parseAddress :: "string \<Rightarrow> int option" where
  "parseAddress s =
     (case hex4 s of
        None \<Rightarrow> None
      | Some (addressStr, r) \<Rightarrow> if r = [] then parseInt addressStr 16 else None)"

text \<open>\<open>(\w+)\<close>\<close>

definition word1 :: "string \<Rightarrow> (string \<times> string) option" where
  "word1 s =
     (if takeWhile js_word s = [] then None
      else Some (takeWhile js_word s, dropWhile js_word s))"

text \<open>\<open>(\d+)\<close>\<close>

definition digits1 :: "string \<Rightarrow> (string \<times> string) option" where
  "digits1 s =
     (if takeWhile js_digit s = [] then None
      else Some (takeWhile js_digit s, dropWhile js_digit s))"

text \<open>A literal character.\<close>

definition lit :: "char \<Rightarrow> string \<Rightarrow> string option" where
  "lit c s = (case s of [] \<Rightarrow> None | x # r \<Rightarrow> if x = c then Some r else None)"

text \<open>\<open>$\<close>\<close>

definition at_end :: "string \<Rightarrow> 'a \<Rightarrow> 'a option" where
  "at_end s v = (if s = [] then Some v else None)"

text \<open>\<open>/^([0-9A-Fa-f]{4})\s+e\s*$/\<close> of \<open>getEntryPoint\<close>: the address string.\<close>

definition entryMatch :: "string \<Rightarrow> string option" where
  "entryMatch s = do {
     (addressStr, r1) \<leftarrow> hex4 s;
     r2 \<leftarrow> spaces1 r1;
     r3 \<leftarrow> lit CHR ''e'' r2;
     at_end (dropWhile js_space r3) addressStr
   }"

text \<open>\<open>/^([0-9A-Fa-f]{4})\s+a\s+(\w+)$/\<close>: the address string and the label.\<close>

definition labelMatch :: "string \<Rightarrow> (string \<times> string) option" where
  "labelMatch s = do {
     (addressStr, r1) \<leftarrow> hex4 s;
     r2 \<leftarrow> spaces1 r1;
     r3 \<leftarrow> lit CHR ''a'' r2;
     r4 \<leftarrow> spaces1 r3;
     (label, r5) \<leftarrow> word1 r4;
     at_end r5 (addressStr, label)
   }"

text \<open>
  \<open>/^([0-9A-Fa-f]{4})\s+[0-9A-Fa-f]{4}\s+s\s+(.*)$/\<close>: the address string and the source
  text. \<open>.\<close> matches no line terminator, so the rest of the line must hold none.
\<close>

definition sourceMatch :: "string \<Rightarrow> (string \<times> string) option" where
  "sourceMatch s = do {
     (addressStr, r1) \<leftarrow> hex4 s;
     r2 \<leftarrow> spaces1 r1;
     (u, r3) \<leftarrow> hex4 r2;
     r4 \<leftarrow> spaces1 r3;
     r5 \<leftarrow> lit CHR ''s'' r4;
     sourceText \<leftarrow> spaces1 r5;
     if list_ex js_lineterm sourceText then None else Some (addressStr, sourceText)
   }"

text \<open>\<open>/^\s*(\w+):\s*/\<close> on the source text of a source line: the label.\<close>

definition labelInSource :: "string \<Rightarrow> string option" where
  "labelInSource s = do {
     (labelName, r1) \<leftarrow> word1 (dropWhile js_space s);
     r2 \<leftarrow> lit CHR '':'' r1;
     Some labelName
   }"

text \<open>\<open>/^([0-9A-Fa-f]{4})\s+(\w+)$/\<close>: the address string and the label.\<close>

definition simpleMatch :: "string \<Rightarrow> (string \<times> string) option" where
  "simpleMatch s = do {
     (addressStr, r1) \<leftarrow> hex4 s;
     r2 \<leftarrow> spaces1 r1;
     (label, r3) \<leftarrow> word1 r2;
     at_end r3 (addressStr, label)
   }"

text \<open>
  \<open>/^([0-9A-Fa-f]{4})\s+(\w+)\s*\(([^:]+):(\d+)\)$/\<close>: the address string, the label,
  the file and the line string.
\<close>

definition complexMatch :: "string \<Rightarrow> (string \<times> string \<times> string \<times> string) option" where
  "complexMatch s = do {
     (addressStr, r1) \<leftarrow> hex4 s;
     r2 \<leftarrow> spaces1 r1;
     (label, r3) \<leftarrow> word1 r2;
     r4 \<leftarrow> lit CHR ''('' (dropWhile js_space r3);
     r5 \<leftarrow> (if takeWhile (\<lambda>c. c \<noteq> CHR '':'') r4 = [] then None
            else Some (dropWhile (\<lambda>c. c \<noteq> CHR '':'') r4));
     r6 \<leftarrow> lit CHR '':'' r5;
     (lineStr, r7) \<leftarrow> digits1 r6;
     r8 \<leftarrow> lit CHR '')'' r7;
     at_end r8 (addressStr, label, takeWhile (\<lambda>c. c \<noteq> CHR '':'') r4, lineStr)
   }"

text \<open>\<open>/^(\w+):/\<close> on a trimmed line of the source file: the label.\<close>

definition sourceLabel :: "string \<Rightarrow> string option" where
  "sourceLabel s = do {
     (labelName, r1) \<leftarrow> word1 s;
     r2 \<leftarrow> lit CHR '':'' r1;
     Some labelName
   }"

text \<open>
  \<open>/^\s*(\d+):\s*[^\t]*\t([0-9A-Fa-f]{4})\s+/\<close> on a line of the listing. After the
  colon, \<open>\s*\<close> may itself consume tabs, so the matcher backtracks: \<open>listing_rest\<close>
  tries the longest run of white space first and shorter ones after; for each,
  \<open>[^\t]*\<close> runs to the next tab.
\<close>

definition after_tab :: "string \<Rightarrow> string option" where
  "after_tab s = do {
     r1 \<leftarrow> lit CHR 0x09 (dropWhile (\<lambda>c. c \<noteq> CHR 0x09) s);
     (addressHex, r2) \<leftarrow> hex4 r1;
     r3 \<leftarrow> spaces1 r2;
     Some addressHex
   }"

fun listing_rest :: "string \<Rightarrow> string option" where
  "listing_rest [] = after_tab []"
| "listing_rest (c # cs) =
     (if js_space c
      then (case listing_rest cs of Some h \<Rightarrow> Some h | None \<Rightarrow> after_tab (c # cs))
      else after_tab (c # cs))"

definition listingMatch :: "string \<Rightarrow> (string \<times> string) option" where
  "listingMatch s = do {
     (lineStr, r1) \<leftarrow> digits1 (dropWhile js_space s);
     r2 \<leftarrow> lit CHR '':'' r1;
     addressHex \<leftarrow> listing_rest r2;
     Some (lineStr, addressHex)
   }"

subsection \<open>\<open>parseBdsFile\<close>\<close>

text \<open>
  The symbols one line of the symbol file adds, \<open>i\<close> being its index. The four formats
  are tried in the order of the source. An address string is four hexadecimal digits,
  on which \<open>parseInt\<close> never yields \<open>NaN\<close>, so the branches for \<open>None\<close> are never
  taken.
\<close>

definition parseBdsLine :: "nat \<Rightarrow> string \<Rightarrow> SymbolInfo list" where
  "parseBdsLine i l =
     (let line = trim l in
      if line = [] then []
      else
        (case labelMatch line of
           Some (addressStr, lab) \<Rightarrow>
             (case parseInt addressStr 16 of
                Some a \<Rightarrow>
                  [\<lparr>address = a, label = lab, sym_file = None, sym_line = Some (int i + 1)\<rparr>]
              | None \<Rightarrow> [])
         | None \<Rightarrow>
        (case sourceMatch line of
           Some (addressStr, sourceText) \<Rightarrow>
             (case labelInSource sourceText of
                Some labelName \<Rightarrow>
                  (case parseInt addressStr 16 of
                     Some a \<Rightarrow>
                       [\<lparr>address = a, label = labelName, sym_file = None,
                         sym_line = Some (int i + 1)\<rparr>]
                   | None \<Rightarrow> [])
              | None \<Rightarrow> [])
         | None \<Rightarrow>
        (case simpleMatch line of
           Some (addressStr, lab) \<Rightarrow>
             (case parseInt addressStr 16 of
                Some a \<Rightarrow>
                  [\<lparr>address = a, label = lab, sym_file = None, sym_line = Some (int i + 1)\<rparr>]
              | None \<Rightarrow> [])
         | None \<Rightarrow>
        (case complexMatch line of
           Some (addressStr, lab, file, lineStr) \<Rightarrow>
             (case parseInt addressStr 16 of
                Some a \<Rightarrow>
                  [\<lparr>address = a, label = lab, sym_file = Some file,
                    sym_line = parseInt lineStr 10\<rparr>]
              | None \<Rightarrow> [])
         | None \<Rightarrow> [])))))"

fun parseBdsLines :: "nat \<Rightarrow> string list \<Rightarrow> SymbolInfo list" where
  "parseBdsLines i [] = []"
| "parseBdsLines i (l # ls) = parseBdsLine i l @ parseBdsLines (i + 1) ls"

text \<open>A missing file and a failing read both give the empty list.\<close>

definition parseBdsFile :: "env \<Rightarrow> string \<Rightarrow> SymbolInfo list" where
  "parseBdsFile e bdsFilePath =
     (if \<not> existsSync e bdsFilePath then []
      else case readFileSync e bdsFilePath of
             None \<Rightarrow> []
           | Some content \<Rightarrow> parseBdsLines 0 (split_lines content))"

subsection \<open>\<open>getEntryPoint\<close>\<close>

text \<open>The address string of the first line of the form \<open>ADDRESS e\<close>.\<close>

fun entryScan :: "string list \<Rightarrow> string option" where
  "entryScan [] = None"
| "entryScan (l # ls) =
     (case entryMatch (trim l) of Some addressStr \<Rightarrow> Some addressStr | None \<Rightarrow> entryScan ls)"

definition getEntryPoint :: "env \<Rightarrow> string \<Rightarrow> int option" where
  "getEntryPoint e bdsFile =
     (if \<not> existsSync e bdsFile then None
      else case readFileSync e bdsFile of
             None \<Rightarrow> None
           | Some content \<Rightarrow>
               (case entryScan (split_lines content) of
                  Some addressStr \<Rightarrow> parseInt addressStr 16
                | None \<Rightarrow>
                    (let symbolMap = parseBdsFile e bdsFile in
                     case find (\<lambda>s. toLowerCase (label s) = ''main'') symbolMap of
                       Some mainSymbol \<Rightarrow> Some (address mainSymbol)
                     | None \<Rightarrow>
                         (case symbolMap of
                            [] \<Rightarrow> None
                          | s # rest \<Rightarrow> Some (address s)))))"

subsection \<open>\<open>findAddressUsingNearestLabel\<close>\<close>

text \<open>
  One round of the loop of strategy 2, for the line \<open>l\<close> of index \<open>i\<close>. The state is
  \<open>nearestLabel\<close> and \<open>nearestDistance\<close>; the distance \<open>None\<close> is \<open>Infinity\<close>.
\<close>

definition nearestStep ::
  "SymbolInfo list \<Rightarrow> int \<Rightarrow> nat \<Rightarrow> string \<Rightarrow> SymbolInfo option \<times> int option \<Rightarrow>
   SymbolInfo option \<times> int option" where
  "nearestStep symbolMap targetLine i l st =
     (case sourceLabel (trim l) of
        None \<Rightarrow> st
      | Some labelName \<Rightarrow>
          (case find (\<lambda>s. label s = labelName) symbolMap of
             None \<Rightarrow> st
           | Some symbol \<Rightarrow>
               (let lineNumber = int i + 1 in
                if lineNumber \<le> targetLine
                then (let distance = targetLine - lineNumber in
                      if (case snd st of None \<Rightarrow> True | Some nearestDistance \<Rightarrow> distance < nearestDistance)
                      then (Some symbol, Some distance)
                      else st)
                else st)))"

fun nearestLoop ::
  "SymbolInfo list \<Rightarrow> int \<Rightarrow> nat \<Rightarrow> string list \<Rightarrow> SymbolInfo option \<times> int option \<Rightarrow>
   SymbolInfo option \<times> int option" where
  "nearestLoop symbolMap targetLine i [] st = st"
| "nearestLoop symbolMap targetLine i (l # ls) st =
     nearestLoop symbolMap targetLine (i + 1) ls (nearestStep symbolMap targetLine i l st)"

text \<open>
  Reading the source file may throw, and so does \<open>sourceLines[targetLine - 1].trim()\<close>
  for a target line below 1; the \<open>catch\<close> returns \<open>null\<close>.
\<close>

definition findAddressUsingNearestLabel ::
  "env \<Rightarrow> string \<Rightarrow> int \<Rightarrow> SymbolInfo list \<Rightarrow> int option" where
  "findAddressUsingNearestLabel e sourceFile targetLine symbolMap =
     (case readFileSync e sourceFile of
        None \<Rightarrow> None
      | Some sourceContent \<Rightarrow>
          (let sourceLines = split_lines sourceContent in
           if targetLine > int (length sourceLines) then None
           else if targetLine < 1 then None
           else
             (let targetLineText = trim (sourceLines ! nat (targetLine - 1)) in
              case (case sourceLabel targetLineText of
                      None \<Rightarrow> None
                    | Some labelName \<Rightarrow> find (\<lambda>s. label s = labelName) symbolMap) of
                Some symbol \<Rightarrow> Some (address symbol)
              | None \<Rightarrow>
                  (case fst (nearestLoop symbolMap targetLine 0 sourceLines (None, None)) of
                     Some nearestLabel \<Rightarrow> Some (address nearestLabel)
                   | None \<Rightarrow> None))))"

subsection \<open>\<open>findAddressForSourceLine\<close>\<close>

text \<open>The address of the first line of the listing whose line number is the target.\<close>

fun listingScan :: "string list \<Rightarrow> int \<Rightarrow> int option" where
  "listingScan [] targetLine = None"
| "listingScan (l # ls) targetLine =
     (case listingMatch l of
        None \<Rightarrow> listingScan ls targetLine
      | Some (lineStr, addressHex) \<Rightarrow>
          if parseInt lineStr 10 = Some targetLine then parseInt addressHex 16
          else listingScan ls targetLine)"

text \<open>
  The path of the listing file, from the workspace folder, the setting
  \<open>defaultOutputDir\<close> (default \<open>.zout\<close>) and the base name of the source file.
  \<open>path.join\<close> throws on an argument that is no string.
\<close>

datatype listing_path = NoWorkspace | JoinThrows | ListingPath string

definition listingFileOf :: "env \<Rightarrow> string \<Rightarrow> listing_path" where
  "listingFileOf e sourceFile =
     (case workspaceFolder e of
        None \<Rightarrow> NoWorkspace
      | Some ws \<Rightarrow>
          (case settings e ''defaultOutputDir'' of
             None \<Rightarrow> ListingPath (pathJoin e [ws, ''.zout'', baseName e sourceFile @ ''.lst''])
           | Some (JString outputDir) \<Rightarrow>
               ListingPath (pathJoin e [ws, outputDir, baseName e sourceFile @ ''.lst''])
           | Some other \<Rightarrow> JoinThrows))"

definition findAddressForSourceLine ::
  "env \<Rightarrow> string \<Rightarrow> int \<Rightarrow> SymbolInfo list \<Rightarrow> int option" where
  "findAddressForSourceLine e sourceFile targetLine symbolMap =
     (case listingFileOf e sourceFile of
        NoWorkspace \<Rightarrow> None
      | JoinThrows \<Rightarrow> findAddressUsingNearestLabel e sourceFile targetLine symbolMap
      | ListingPath listingFile \<Rightarrow>
          if \<not> existsSync e listingFile
          then findAddressUsingNearestLabel e sourceFile targetLine symbolMap
          else
            (case readFileSync e listingFile of
               None \<Rightarrow> findAddressUsingNearestLabel e sourceFile targetLine symbolMap
             | Some listingContent \<Rightarrow>
                 (case listingScan (split_lines listingContent) targetLine of
                    Some a \<Rightarrow> Some a
                  | None \<Rightarrow> findAddressUsingNearestLabel e sourceFile targetLine symbolMap)))"

subsection \<open>\<open>getBreakpointAddresses\<close>\<close>

text \<open>The loop over \<open>vscode.debug.breakpoints\<close>, pushing onto \<open>breakpointInfos\<close>.\<close>

fun collectBreakpoints ::
  "env \<Rightarrow> SymbolInfo list \<Rightarrow> breakpoint list \<Rightarrow> BreakpointInfo list \<Rightarrow> BreakpointInfo list" where
  "collectBreakpoints e symbolMap [] breakpointInfos = breakpointInfos"
| "collectBreakpoints e symbolMap (OtherBreakpoint # bs) breakpointInfos =
     collectBreakpoints e symbolMap bs breakpointInfos"
| "collectBreakpoints e symbolMap (SourceBreakpoint sourceFile line0 # bs) breakpointInfos =
     (let line = int line0 + 1 in
      case findAddressForSourceLine e sourceFile line symbolMap of
        Some a \<Rightarrow>
          collectBreakpoints e symbolMap bs
            (breakpointInfos @
               [\<lparr>bp_address = a, bp_file = sourceFile, bp_line = line,
                 bp_label = Some (''line_'' @ toString line 10)\<rparr>])
      | None \<Rightarrow> collectBreakpoints e symbolMap bs breakpointInfos)"

definition getBreakpointAddresses :: "env \<Rightarrow> string \<Rightarrow> BreakpointInfo list" where
  "getBreakpointAddresses e bdsFile =
     take 4 (collectBreakpoints e (parseBdsFile e bdsFile) (breakpoints e) [])"

subsection \<open>\<open>formatBreakpointsForEmulator\<close>\<close>

fun formatBreakpointsForEmulator :: "BreakpointInfo list \<Rightarrow> string list" where
  "formatBreakpointsForEmulator [] = []"
| "formatBreakpointsForEmulator (bp # bps) =
     [''-b'', toUpperCase (toString (bp_address bp) 16)] @ formatBreakpointsForEmulator bps"

subsection \<open>\<open>EmulatorManager.formatBreakpointArgs\<close>\<close>

text \<open>The emulator takes up to four breakpoints.\<close>

definition formatBreakpointArgs :: "int list \<Rightarrow> string list" where
  "formatBreakpointArgs addresses =
     (let maxBreakpoints = min (length addresses) 4
      in concat (map (\<lambda>i. [''-b'', toUpperCase (toString (addresses ! i) 16)])
                   [0..<maxBreakpoints]))"

subsection \<open>Views of the data\<close>





text \<open>
  The breakpoints that resolve, in the order of the host: what the loop of
  \<open>getBreakpointAddresses\<close> collects before the cut.
\<close>

definition resolveBreakpoint :: "env \<Rightarrow> SymbolInfo list \<Rightarrow> breakpoint \<Rightarrow> BreakpointInfo option" where
  "resolveBreakpoint e symbolMap b =
     (case b of
        OtherBreakpoint \<Rightarrow> None
      | SourceBreakpoint sourceFile line0 \<Rightarrow>
          (case findAddressForSourceLine e sourceFile (int line0 + 1) symbolMap of
             None \<Rightarrow> None
           | Some a \<Rightarrow>
               Some \<lparr>bp_address = a, bp_file = sourceFile, bp_line = int line0 + 1,
                      bp_label = Some (''line_'' @ toString (int line0 + 1) 10)\<rparr>))"

definition resolvedBreakpoints :: "env \<Rightarrow> string \<Rightarrow> BreakpointInfo list" where
  "resolvedBreakpoints e bdsFile =
     List.map_filter (resolveBreakpoint e (parseBdsFile e bdsFile)) (breakpoints e)"




section \<open>ZmacAssembler\<close>

datatype severity = Error | Warning

record AssemblyError =
  err_file :: string
  err_line :: int
  err_column :: "int option"
  err_message :: string
  err_severity :: severity

record OutputFiles =
  bds :: "string option"
  cmd :: "string option"
  lst :: "string option"

record AssemblyResult =
  success :: bool
  stdout :: string
  stderr :: string
  outputFiles :: OutputFiles
  errors :: "AssemblyError list"

subsection \<open>\<open>parseZmacErrors\<close>\<close>

text \<open>A literal in lower case, matched ignoring case (the flag \<open>i\<close>).\<close>

definition lit_ci :: "string \<Rightarrow> string \<Rightarrow> string option" where
  "lit_ci p s =
     (if length p \<le> length s \<and> toLowerCase (take (length p) s) = p
      then Some (drop (length p) s) else None)"

text \<open>\<open>(.+)\<close>: the longest run of characters that are no line terminators, not empty.\<close>

definition dot_plus :: "string \<Rightarrow> string option" where
  "dot_plus s =
     (if takeWhile (\<lambda>c. \<not> js_lineterm c) s = [] then None
      else Some (takeWhile (\<lambda>c. \<not> js_lineterm c) s))"

text \<open>
  \<open>\s*(.+)\<close>: the white space is consumed as far as it goes and given back one
  character at a time until \<open>(.+)\<close> matches.
\<close>

fun message_rest :: "string \<Rightarrow> string option" where
  "message_rest [] = dot_plus []"
| "message_rest (c # cs) =
     (if js_space c
      then (case message_rest cs of Some m \<Rightarrow> Some m | None \<Rightarrow> dot_plus (c # cs))
      else dot_plus (c # cs))"

text \<open>A pattern that is not anchored is tried at every position, from the left.\<close>

fun search :: "(string \<Rightarrow> 'a option) \<Rightarrow> string \<Rightarrow> 'a option" where
  "search m [] = m []"
| "search m (c # cs) = (case m (c # cs) of Some r \<Rightarrow> Some r | None \<Rightarrow> search m cs)"

text \<open>
  \<open>/File\s+'([^']+)',\s+line\s+(\d+):\s*(.+)/i\<close> at one position: the file, the line
  string and the message.
\<close>

definition errorAt :: "string \<Rightarrow> (string \<times> string \<times> string) option" where
  "errorAt s = do {
     r1 \<leftarrow> lit_ci ''file'' s;
     r2 \<leftarrow> spaces1 r1;
     r3 \<leftarrow> lit (CHR 0x27) r2;
     r4 \<leftarrow> (if takeWhile (\<lambda>c. c \<noteq> CHR 0x27) r3 = [] then None
            else Some (dropWhile (\<lambda>c. c \<noteq> CHR 0x27) r3));
     r5 \<leftarrow> lit (CHR 0x27) r4;
     r6 \<leftarrow> lit CHR '','' r5;
     r7 \<leftarrow> spaces1 r6;
     r8 \<leftarrow> lit_ci ''line'' r7;
     r9 \<leftarrow> spaces1 r8;
     (lineStr, r10) \<leftarrow> digits1 r9;
     r11 \<leftarrow> lit CHR '':'' r10;
     message \<leftarrow> message_rest r11;
     Some (takeWhile (\<lambda>c. c \<noteq> CHR 0x27) r3, lineStr, message)
   }"

text \<open>\<open>/line\s+(\d+):\s*(.+)/i\<close> at one position: the line string and the message.\<close>

definition simpleErrorAt :: "string \<Rightarrow> (string \<times> string) option" where
  "simpleErrorAt s = do {
     r1 \<leftarrow> lit_ci ''line'' s;
     r2 \<leftarrow> spaces1 r1;
     (lineStr, r3) \<leftarrow> digits1 r2;
     r4 \<leftarrow> lit CHR '':'' r3;
     message \<leftarrow> message_rest r4;
     Some (lineStr, message)
   }"

definition severityOf :: "string \<Rightarrow> severity" where
  "severityOf line = (if str_includes (toLowerCase line) ''warning'' then Warning else Error)"

text \<open>
  The errors one line of standard error adds. A line string is a run of digits, on which
  \<open>parseInt\<close> never yields \<open>NaN\<close>.
\<close>

definition zmacErrorsOfLine :: "string \<Rightarrow> string \<Rightarrow> AssemblyError list" where
  "zmacErrorsOfLine sourceFile line =
     (case search errorAt line of
        Some (file, lineStr, message) \<Rightarrow>
          (case parseInt lineStr 10 of
             Some lineNum \<Rightarrow>
               [\<lparr>err_file = file, err_line = lineNum, err_column = None,
                 err_message = trim message, err_severity = severityOf line\<rparr>]
           | None \<Rightarrow> [])
      | None \<Rightarrow>
          (case search simpleErrorAt line of
             Some (lineStr, message) \<Rightarrow>
               (case parseInt lineStr 10 of
                  Some lineNum \<Rightarrow>
                    [\<lparr>err_file = sourceFile, err_line = lineNum, err_column = None,
                      err_message = trim message, err_severity = severityOf line\<rparr>]
                | None \<Rightarrow> [])
           | None \<Rightarrow> []))"

definition parseZmacErrors :: "string \<Rightarrow> string \<Rightarrow> AssemblyError list" where
  "parseZmacErrors stderr_text sourceFile =
     concat (map (zmacErrorsOfLine sourceFile) (split_lines stderr_text))"

subsection \<open>\<open>getOutputFiles\<close>, \<open>needsAssembly\<close>, \<open>assemble\<close>\<close>

definition getOutputFiles :: "env \<Rightarrow> string \<Rightarrow> string \<Rightarrow> OutputFiles" where
  "getOutputFiles e outputDir base =
     (let bdsFile = pathJoin e [outputDir, base @ ''.bds''];
          cmdFile = pathJoin e [outputDir, base @ ''.cmd''];
          lstFile = pathJoin e [outputDir, base @ ''.lst'']
      in \<lparr>bds = (if existsSync e bdsFile then Some bdsFile else None),
          cmd = (if existsSync e cmdFile then Some cmdFile else None),
          lst = (if existsSync e lstFile then Some lstFile else None)\<rparr>)"

text \<open>When a file cannot be read for its time, assembly is taken to be needed.\<close>

definition needsAssembly :: "env \<Rightarrow> string \<Rightarrow> string \<Rightarrow> bool" where
  "needsAssembly e sourceFile outputBds =
     (if \<not> existsSync e outputBds then True
      else
        (case statMtimeMs e sourceFile of
           None \<Rightarrow> True
         | Some sourceMtime \<Rightarrow>
             (case statMtimeMs e outputBds of
                None \<Rightarrow> True
              | Some bdsMtime \<Rightarrow> sourceMtime > bdsMtime)))"

text \<open>
  \<open>assemble\<close> returns the value its promise resolves to, or the error it throws or its
  promise is rejected with, and the commands it has called \<open>spawn\<close> with. \<open>spawn\<close> is
  called in the executor of the promise, where nothing catches what it throws: the
  promise is then rejected.
\<close>

type_synonym spawn_log = "(string \<times> string list) list"

definition assemble ::
  "env \<Rightarrow> string \<Rightarrow> string \<Rightarrow> string \<Rightarrow> string list \<Rightarrow> (string + AssemblyResult) \<times> spawn_log" where
  "assemble e sourceFile outputDir zmacPath zmacArgs =
     (case workspaceFolder e of
        None \<Rightarrow> (Inl ''No workspace folder open'', [])
      | Some ws \<Rightarrow>
          (let fullOutputDir = pathJoin e [ws, outputDir] in
           if \<not> existsSync e fullOutputDir \<and> mkdirThrows e fullOutputDir
           then (Inl ''mkdirSync'', [])
           else
             (let sourceBaseName = baseName e sourceFile;
                  args = [''--od'', fullOutputDir] @ zmacArgs @ [sourceFile]
              in (case runProcess e zmacPath args of
                    SpawnThrows message \<Rightarrow> Inl message
                  | Closed code out err \<Rightarrow>
                      Inr \<lparr>success = (code = Some 0), stdout = out, stderr = err,
                           outputFiles =
                             getOutputFiles (e\<lparr>files := filesAfterRun e\<rparr>) fullOutputDir
                               sourceBaseName,
                           errors = parseZmacErrors err sourceFile\<rparr>
                  | SpawnError message \<Rightarrow>
                      Inr \<lparr>success = False, stdout = [], stderr = message,
                           outputFiles = \<lparr>bds = None, cmd = None, lst = None\<rparr>,
                           errors =
                             [\<lparr>err_file = sourceFile, err_line = 1, err_column = None,
                               err_message = ''Failed to start zmac: '' @ message,
                               err_severity = Error\<rparr>]\<rparr>,
                  [(zmacPath, args)]))))"

section \<open>TRS80Commands\<close>

record ProjectConfig =
  pc_outputDir :: "string option"
  pc_zmacArgs :: "string list option"
  pc_emulatorArgs :: "string list option"
  pc_defaultSourceFile :: "string option"
  pc_target :: "string option"

record TRS80Config =
  emulatorPath :: string
  zmacPath :: string
  outputDir :: string
  emulatorArgs :: "string list"
  target :: string
  autoAssemble :: bool
  projectConfig :: "ProjectConfig option"

text \<open>
  \<open>performAssembly\<close> for a given source file and configuration: the result (\<open>null\<close> is
  \<open>None\<close>) or the error thrown, and the commands spawned.
\<close>

definition performAssembly ::
  "env \<Rightarrow> string \<Rightarrow> TRS80Config \<Rightarrow> (string + AssemblyResult option) \<times> spawn_log" where
  "performAssembly e sourceFile config =
     (case workspaceFolder e of
        None \<Rightarrow> (Inl ''No workspace folder open'', [])
      | Some ws \<Rightarrow>
          (let sourceBaseName = baseName e sourceFile;
               outDir = pathJoin e [ws, outputDir config];
               outputBds = pathJoin e [outDir, sourceBaseName @ ''.bds'']
           in if \<not> needsAssembly e sourceFile outputBds
              then (Inr (Some \<lparr>success = True, stdout = [], stderr = [],
                                outputFiles = getOutputFiles e outDir sourceBaseName,
                                errors = []\<rparr>), [])
              else
                (let zmacArgs =
                       (case projectConfig config of
                          None \<Rightarrow> []
                        | Some pc \<Rightarrow> (case pc_zmacArgs pc of None \<Rightarrow> [] | Some zs \<Rightarrow> zs))
                 in case assemble e sourceFile (outputDir config) (zmacPath config) zmacArgs of
                      (Inl err, spawned) \<Rightarrow> (Inl err, spawned)
                    | (Inr result, spawned) \<Rightarrow>
                        if \<not> success result then (Inr None, spawned)
                        else (Inr (Some result), spawned))))"

text \<open>
  \<open>prepareEmulatorArgs\<close>: the emulator arguments and the breakpoint arguments. The test
  \<open>isDebugMode && assemblyResult.outputFiles.bds\<close> fails for a path that is missing or
  empty.
\<close>

definition prepareEmulatorArgs ::
  "env \<Rightarrow> TRS80Config \<Rightarrow> AssemblyResult \<Rightarrow> bool \<Rightarrow> string list \<times> string list" where
  "prepareEmulatorArgs e config assemblyResult isDebug =
     (emulatorArgs config,
      (case bds (outputFiles assemblyResult) of
         None \<Rightarrow> []
       | Some bdsFile \<Rightarrow>
           if \<not> isDebug \<or> bdsFile = [] then []
           else
             (let bps = getBreakpointAddresses e bdsFile in
              if length bps > 0 then formatBreakpointsForEmulator bps
              else
                (case getEntryPoint e bdsFile of
                   Some entryPoint \<Rightarrow> [''-b'', toUpperCase (toString entryPoint 16)]
                 | None \<Rightarrow> []))))"

section \<open>EmulatorManager\<close>

text \<open>The stored instance; the handle \<open>process\<close> is identified with its \<open>pid\<close>.\<close>

record EmulatorInstance =
  pid :: nat
  startTime :: nat
  inst_sourceFile :: string
  isDebugMode :: bool

text \<open>The arguments of a call of \<open>startEmulator\<close>.\<close>

record start_args =
  arg_emulatorPath :: string
  arg_bdsFile :: string
  arg_cmdFile :: string
  arg_sourceFile :: string
  arg_modelArg :: string
  arg_emulatorArgs :: string
  arg_breakpointArgs :: "string list"
  arg_isDebugMode :: bool

text \<open>
  The argument list of the emulator: the model, the user's arguments, the breakpoints,
  the symbol file when it exists, and the command file last.
\<close>

definition emulatorArgv :: "env \<Rightarrow> start_args \<Rightarrow> string list" where
  "emulatorArgv e a =
     (let userArgs = (if trim (arg_emulatorArgs a) = [] then []
                      else split_on CHR '' '' (arg_emulatorArgs a))
      in [arg_modelArg a] @ userArgs @ arg_breakpointArgs a @
         (if arg_bdsFile a \<noteq> [] \<and> existsSync e (arg_bdsFile a) then [''-ls'', arg_bdsFile a]
          else []) @
         [arg_cmdFile a])"

text \<open>
  The program runs on an event loop. A call runs until it awaits a promise; what follows
  the \<open>await\<close> runs when the promise is resolved, after the handlers of the event that
  resolved it. The state between two events:
  \<^item> \<open>currentInstance\<close>, the field of the manager;
  \<^item> \<open>children\<close>, the child processes that were spawned and have not exited;
  \<^item> \<open>listeners\<close>, the \<open>exit\<close> listeners registered on each child, in the order of
    registration: that of \<open>startEmulator\<close>, with the \<open>pid\<close> it holds, and those of calls of
    \<open>stopEmulator\<close>, numbered;
  \<^item> \<open>timers\<close>, the timers of \<open>stopEmulator\<close> that are pending: the number of the call,
    the child it will kill, the delay in milliseconds;
  \<^item> \<open>stops\<close>, the promises of \<open>stopEmulator\<close> not yet resolved, each with what awaits
    it: the rest of a call of \<open>startEmulator\<close>, or a caller that only returns;
  \<^item> \<open>ready\<close>, the continuations of promises resolved in the current event;
  \<^item> \<open>spawning\<close>, the children whose \<open>spawn\<close> event is pending, with the instance the
    handler will store;
  \<^item> \<open>kills\<close> and \<open>spawns\<close>, the calls of \<open>process.kill\<close> and the children \<open>spawn\<close>
    returned, in order; \<open>rejected\<close>, the number of calls of \<open>startEmulator\<close> rejected;
  \<^item> \<open>fresh\<close>, the next number for a child or a call.
\<close>

datatype continuation = ThenSpawn start_args | ThenReturn

datatype listener = StartExit nat | StopExit nat

record world =
  currentInstance :: "EmulatorInstance option"
  children :: "nat list"
  listeners :: "(nat \<times> listener) list"
  timers :: "(nat \<times> nat \<times> nat) list"
  stops :: "(nat \<times> continuation) list"
  ready :: "continuation list"
  spawning :: "(nat \<times> EmulatorInstance) list"
  kills :: "(nat \<times> signal) list"
  spawns :: "(nat \<times> string \<times> string list) list"
  rejected :: nat
  fresh :: nat

text \<open>
  \<open>stopEmulator()\<close> up to the promise it returns, with what awaits the promise. With no
  instance it returns at once. Otherwise it sends \<open>SIGTERM\<close>; when that throws, \<open>cleanup\<close>
  runs at once; when it does not, a timer of 2000 ms and an \<open>exit\<close> listener are set.
\<close>

definition stopEmulator :: "env \<Rightarrow> continuation \<Rightarrow> world \<Rightarrow> world" where
  "stopEmulator e c w =
     (case currentInstance w of
        None \<Rightarrow> w\<lparr>ready := ready w @ [c]\<rparr>
      | Some inst \<Rightarrow>
          (let p = pid inst;
               k = fresh w;
               w1 = w\<lparr>kills := kills w @ [(p, SIGTERM)]\<rparr>
           in if killThrows e p SIGTERM
              then w1\<lparr>currentInstance := None, ready := ready w1 @ [c]\<rparr>
              else w1\<lparr>timers := timers w1 @ [(k, p, 2000)],
                      listeners := listeners w1 @ [(p, StopExit k)],
                      stops := stops w1 @ [(k, c)],
                      fresh := k + 1\<rparr>))"

text \<open>
  \<open>cleanup\<close> of the call \<open>k\<close> of \<open>stopEmulator\<close>: the stored instance is cleared and the
  promise resolved; resolving it again does nothing.
\<close>

definition cleanup :: "nat \<Rightarrow> world \<Rightarrow> world" where
  "cleanup k w =
     (case map_of (stops w) k of
        None \<Rightarrow> w\<lparr>currentInstance := None\<rparr>
      | Some c \<Rightarrow>
          w\<lparr>currentInstance := None,
            stops := filter (\<lambda>s. fst s \<noteq> k) (stops w),
            ready := ready w @ [c]\<rparr>)"

text \<open>
  The \<open>exit\<close> listeners. That of \<open>startEmulator\<close> clears the stored instance when it is
  the child that exited; that of \<open>stopEmulator\<close> clears its timer and runs \<open>cleanup\<close>.
\<close>

fun runListener :: "listener \<Rightarrow> world \<Rightarrow> world" where
  "runListener (StartExit p) w =
     (case currentInstance w of
        None \<Rightarrow> w
      | Some inst \<Rightarrow> if pid inst = p then w\<lparr>currentInstance := None\<rparr> else w)"
| "runListener (StopExit k) w = cleanup k (w\<lparr>timers := filter (\<lambda>t. fst t \<noteq> k) (timers w)\<rparr>)"

text \<open>
  The rest of \<open>startEmulator\<close> after \<open>await this.stopEmulator()\<close>: the child is spawned;
  without a \<open>pid\<close> the call is rejected; otherwise the \<open>exit\<close> listener is registered and
  the \<open>spawn\<close> event awaited.
\<close>

definition spawnEmulator :: "env \<Rightarrow> start_args \<Rightarrow> world \<Rightarrow> world" where
  "spawnEmulator e a w =
     (if \<not> spawnHasPid e (arg_emulatorPath a) then w\<lparr>rejected := rejected w + 1\<rparr>
      else
        (let p = fresh w;
             instance = \<lparr>pid = p, startTime = now e, inst_sourceFile = arg_sourceFile a,
                         isDebugMode = arg_isDebugMode a\<rparr>
         in w\<lparr>children := children w @ [p],
              spawns := spawns w @ [(p, arg_emulatorPath a, emulatorArgv e a)],
              listeners := listeners w @ [(p, StartExit p)],
              spawning := spawning w @ [(p, instance)],
              fresh := p + 1\<rparr>))"

fun resume :: "env \<Rightarrow> continuation \<Rightarrow> world \<Rightarrow> world" where
  "resume e ThenReturn w = w"
| "resume e (ThenSpawn a) w = spawnEmulator e a w"

text \<open>At the end of an event, the continuations of the promises it resolved run.\<close>

definition drain :: "env \<Rightarrow> world \<Rightarrow> world" where
  "drain e w = foldl (\<lambda>v c. resume e c v) (w\<lparr>ready := []\<rparr>) (ready w)"

text \<open>
  The events: a call of \<open>startEmulator\<close>, a call of \<open>stopEmulator\<close> by a caller that only
  awaits it, the exit of a child, the timer of a call of \<open>stopEmulator\<close>, and the \<open>spawn\<close>
  event of a child.
\<close>

datatype event = CallStart start_args | CallStop | Exit nat | Timeout nat | Spawned nat

definition onExit :: "env \<Rightarrow> nat \<Rightarrow> world \<Rightarrow> world" where
  "onExit e p w =
     (if p \<notin> set (children w) then w
      else drain e
             (foldl (\<lambda>v l. runListener l v)
                (w\<lparr>children := filter (\<lambda>q. q \<noteq> p) (children w),
                   listeners := filter (\<lambda>l. fst l \<noteq> p) (listeners w)\<rparr>)
                (map snd (filter (\<lambda>l. fst l = p) (listeners w)))))"

text \<open>
  The timer of the call \<open>k\<close>, unless cleared: \<open>SIGKILL\<close> is sent, an error of sending it
  is caught, and \<open>cleanup\<close> runs.
\<close>

definition onTimeout :: "env \<Rightarrow> nat \<Rightarrow> world \<Rightarrow> world" where
  "onTimeout e k w =
     (case find (\<lambda>t. fst t = k) (timers w) of
        None \<Rightarrow> w
      | Some (k', p, ms) \<Rightarrow>
          drain e
            (cleanup k
               (w\<lparr>timers := filter (\<lambda>t. fst t \<noteq> k) (timers w),
                  kills := kills w @ [(p, SIGKILL)]\<rparr>)))"

definition onSpawn :: "nat \<Rightarrow> world \<Rightarrow> world" where
  "onSpawn p w =
     (case map_of (spawning w) p of
        None \<Rightarrow> w
      | Some instance \<Rightarrow>
          w\<lparr>currentInstance := Some instance,
            spawning := filter (\<lambda>s. fst s \<noteq> p) (spawning w)\<rparr>)"

fun step :: "env \<Rightarrow> world \<Rightarrow> event \<Rightarrow> world" where
  "step e w (CallStart a) = drain e (stopEmulator e (ThenSpawn a) w)"
| "step e w CallStop = drain e (stopEmulator e ThenReturn w)"
| "step e w (Exit p) = onExit e p w"
| "step e w (Timeout k) = onTimeout e k w"
| "step e w (Spawned p) = onSpawn p w"

definition run :: "env \<Rightarrow> world \<Rightarrow> event list \<Rightarrow> world" where
  "run e w evs = foldl (step e) w evs"

section \<open>The call of \<open>EmulatorManager.startEmulator\<close> by \<open>TRS80Commands\<close>\<close>

text \<open>The values a caller passes: a string, a list of strings, a boolean.\<close>

datatype actual = AString string | AStrings "string list" | ABool bool

text \<open>
  \<open>EmulatorManager.startEmulator\<close> takes its eight parameters \<open>emulatorPath\<close>, \<open>bdsFile\<close>,
  \<open>cmdFile\<close>, \<open>sourceFile\<close>, \<open>modelArg\<close>, \<open>emulatorArgs\<close>, \<open>breakpointArgs\<close> and
  \<open>isDebugMode\<close> by position, the last three with defaults. After
  \<open>await this.stopEmulator()\<close> and before \<open>spawn\<close> it computes
  \<open>emulatorArgs.trim() === '' ? [] : emulatorArgs.split(' ')\<close> from the sixth value,
  \<open>''\<close> when there is none. A list or a boolean has no \<open>trim\<close>: the call throws.
  \<open>userArgsOf\<close> is the error thrown there, or the user arguments.
\<close>

definition userArgsOf :: "actual list \<Rightarrow> string + string list" where
  "userArgsOf actuals =
     (case drop 5 actuals of
        [] \<Rightarrow> Inr []
      | AString s # rest \<Rightarrow> Inr (if trim s = [] then [] else split_on CHR '' '' s)
      | AStrings xs # rest \<Rightarrow> Inl ''TypeError: emulatorArgs.trim is not a function''
      | ABool b # rest \<Rightarrow> Inl ''TypeError: emulatorArgs.trim is not a function'')"

text \<open>
  \<open>TRS80Commands.startEmulator\<close>: without a BDS file or a CMD file it throws; else it
  calls \<open>EmulatorManager.startEmulator\<close> with seven values: the emulator path, the two
  files, the source file, the list of emulator arguments, the list of breakpoint
  arguments and the debug mode.
\<close>

definition startEmulator_actuals ::
  "TRS80Config \<Rightarrow> AssemblyResult \<Rightarrow> string \<Rightarrow> string list \<Rightarrow> string list \<Rightarrow> bool \<Rightarrow>
   string + actual list" where
  "startEmulator_actuals config assemblyResult sourceFile emuArgs breakpointArgs isDebug =
     (case bds (outputFiles assemblyResult) of
        None \<Rightarrow> Inl ''No BDS file generated''
      | Some bdsFile \<Rightarrow>
          if bdsFile = [] then Inl ''No BDS file generated''
          else
            (case cmd (outputFiles assemblyResult) of
               None \<Rightarrow> Inl ''No CMD file generated''
             | Some cmdFile \<Rightarrow>
                 if cmdFile = [] then Inl ''No CMD file generated''
                 else Inr [AString (emulatorPath config), AString bdsFile, AString cmdFile,
                           AString sourceFile, AStrings emuArgs, AStrings breakpointArgs,
                           ABool isDebug]))"

text \<open>
  What \<open>TRS80Commands.startEmulator\<close> comes to before a child is spawned: the error
  thrown, or the user arguments with which \<open>EmulatorManager.startEmulator\<close> goes on.
\<close>

definition startEmulator_command ::
  "TRS80Config \<Rightarrow> AssemblyResult \<Rightarrow> string \<Rightarrow> string list \<Rightarrow> string list \<Rightarrow> bool \<Rightarrow>
   string + string list" where
  "startEmulator_command config assemblyResult sourceFile emuArgs breakpointArgs isDebug =
     (case startEmulator_actuals config assemblyResult sourceFile emuArgs breakpointArgs isDebug of
        Inl err \<Rightarrow> Inl err
      | Inr actuals \<Rightarrow> userArgsOf actuals)"

section \<open>ConfigurationManager\<close>

text \<open>
  A configuration object as it is at run time: each field holds what was assigned to
  it, of whatever type; \<open>None\<close> is \<open>undefined\<close>.
\<close>

record config_values =
  v_emulatorPath :: "jsval option"
  v_zmacPath :: "jsval option"
  v_outputDir :: "jsval option"
  v_emulatorArgs :: "jsval option"
  v_target :: "jsval option"
  v_autoAssemble :: "jsval option"
  v_projectConfig :: "jsval option"

text \<open>What \<open>if (v)\<close>, \<open>!v\<close> and \<open>||\<close> take for true.\<close>

definition truthy :: "jsval option \<Rightarrow> bool" where
  "truthy v =
     (case v of
        None \<Rightarrow> False
      | Some JNull \<Rightarrow> False
      | Some (JBool b) \<Rightarrow> b
      | Some (JNumber n) \<Rightarrow> n \<noteq> 0
      | Some (JString s) \<Rightarrow> s \<noteq> []
      | Some (JArray xs) \<Rightarrow> True
      | Some (JObject kvs) \<Rightarrow> True)"

text \<open>\<open>a || b\<close> and \<open>a ?? b\<close>\<close>

definition js_or :: "jsval option \<Rightarrow> jsval option \<Rightarrow> jsval option" where
  "js_or a b = (if truthy a then a else b)"

definition js_nullish :: "jsval option \<Rightarrow> jsval option \<Rightarrow> jsval option" where
  "js_nullish a b = (if a = None \<or> a = Some JNull then b else a)"

text \<open>\<open>Array.isArray(v)\<close> and \<open>typeof v === 'string'\<close>\<close>

definition isArray :: "jsval option \<Rightarrow> bool" where
  "isArray v = (case v of Some (JArray xs) \<Rightarrow> True | other \<Rightarrow> False)"

definition isString :: "jsval option \<Rightarrow> bool" where
  "isString v = (case v of Some (JString s) \<Rightarrow> True | other \<Rightarrow> False)"

text \<open>\<open>!Array.isArray(v) || v.length === 0\<close>\<close>

definition noArgsArray :: "jsval option \<Rightarrow> bool" where
  "noArgsArray v = (case v of Some (JArray xs) \<Rightarrow> xs = [] | other \<Rightarrow> True)"

text \<open>
  A property of a value that is not \<open>null\<close>: of an object, the property of that name;
  of any other value, \<open>undefined\<close> for the names read here.
\<close>

definition getProp :: "jsval \<Rightarrow> string \<Rightarrow> jsval option" where
  "getProp v k = (case v of JObject kvs \<Rightarrow> map_of kvs k | other \<Rightarrow> None)"

definition default_emulatorPath :: string where
  "default_emulatorPath = ''/Applications/trs80gp.app/Contents/MacOS/trs80gp''"

definition targets :: "jsval option list" where
  "targets = [Some (JString ''model1''), Some (JString ''model3''), Some (JString ''model4'')]"

text \<open>
  The project configuration: the value \<open>JSON.parse\<close> gives for
  \<open>.vscode/trs80gp.json\<close>; \<open>None\<close> without a workspace folder, without the file, and
  when reading or parsing throws.
\<close>

definition readProjectConfig :: "env \<Rightarrow> jsval option" where
  "readProjectConfig e =
     (case workspaceFolder e of
        None \<Rightarrow> None
      | Some ws \<Rightarrow>
          (let projectConfigPath = pathJoin e [ws, ''.vscode'', ''trs80gp.json''] in
           if \<not> existsSync e projectConfigPath then None
           else (case readFileSync e projectConfigPath of
                   None \<Rightarrow> None
                 | Some projectConfigText \<Rightarrow> jsonParse e projectConfigText)))"

subsection \<open>The edition with a list of emulator arguments\<close>

text \<open>
  \<open>if (!v || v.trim() === '') v = d\<close>: a value that counts as true and is no string has
  no \<open>trim\<close>, and the call throws.
\<close>

definition ensurePath :: "jsval option \<Rightarrow> string \<Rightarrow> string + jsval option" where
  "ensurePath v d =
     (if \<not> truthy v then Inr (Some (JString d))
      else (case v of
              Some (JString s) \<Rightarrow> Inr (if trim s = [] then Some (JString d) else v)
            | other \<Rightarrow> Inl ''TypeError: trim is not a function''))"

definition ensureMinimalConfiguration :: "config_values \<Rightarrow> string + config_values" where
  "ensureMinimalConfiguration config =
     (case ensurePath (v_emulatorPath config) default_emulatorPath of
        Inl err \<Rightarrow> Inl err
      | Inr emuPath \<Rightarrow>
     (case ensurePath (v_zmacPath config) ''zmac'' of
        Inl err \<Rightarrow> Inl err
      | Inr zPath \<Rightarrow>
     (case ensurePath (v_outputDir config) ''.zout'' of
        Inl err \<Rightarrow> Inl err
      | Inr outDir \<Rightarrow>
          Inr (config
            \<lparr>v_emulatorPath := emuPath,
             v_zmacPath := zPath,
             v_outputDir := outDir,
             v_emulatorArgs :=
               (if noArgsArray (v_emulatorArgs config) then Some (JArray [JString ''-m3''])
                else v_emulatorArgs config),
             v_target :=
               (if \<not> truthy (v_target config) \<or> v_target config \<notin> set targets
                then Some (JString ''model3'') else v_target config),
             v_autoAssemble :=
               (if v_autoAssemble config = None \<or> v_autoAssemble config = Some JNull
                then Some (JBool True) else v_autoAssemble config)\<rparr>))))"

text \<open>
  The overrides of the project configuration, in the \<open>try\<close> block: reading a property
  of \<open>null\<close> throws, after \<open>projectConfig\<close> was stored.
\<close>

definition applyProjectConfig :: "jsval \<Rightarrow> config_values \<Rightarrow> config_values" where
  "applyProjectConfig projectCfg g =
     (let g1 = g\<lparr>v_projectConfig := Some projectCfg\<rparr> in
      if projectCfg = JNull then g1
      else
        (let g2 = (case getProp projectCfg ''outputDir'' of
                     None \<Rightarrow> g1
                   | Some v \<Rightarrow> g1\<lparr>v_outputDir := Some v\<rparr>);
             g3 = (case getProp projectCfg ''emulatorArgs'' of
                     Some (JArray xs) \<Rightarrow> g2\<lparr>v_emulatorArgs := Some (JArray xs)\<rparr>
                   | other \<Rightarrow> g2)
         in (case getProp projectCfg ''target'' of
               None \<Rightarrow> g3
             | Some v \<Rightarrow> g3\<lparr>v_target := Some v\<rparr>)))"

text \<open>The settings, each with its default.\<close>

definition globalConfig :: "env \<Rightarrow> config_values" where
  "globalConfig e =
     (let config = settings e
      in \<lparr>v_emulatorPath = js_or (config ''emulatorPath'') (Some (JString default_emulatorPath)),
          v_zmacPath = js_or (config ''zmacPath'') (Some (JString ''zmac'')),
          v_outputDir = js_or (config ''defaultOutputDir'') (Some (JString ''.zout'')),
          v_emulatorArgs =
            js_or (config ''defaultEmulatorArgs'') (Some (JArray [JString ''-m3''])),
          v_target = js_or (config ''defaultTarget'') (Some (JString ''model3'')),
          v_autoAssemble = js_nullish (config ''autoAssemble'') (Some (JBool True)),
          v_projectConfig = None\<rparr>)"

text \<open>The settings overridden by the project configuration, and the arguments checked.\<close>

definition checkedConfig :: "env \<Rightarrow> config_values" where
  "checkedConfig e =
     (let merged = (case readProjectConfig e of
                      None \<Rightarrow> globalConfig e
                    | Some projectCfg \<Rightarrow> applyProjectConfig projectCfg (globalConfig e))
      in if noArgsArray (v_emulatorArgs merged)
         then merged\<lparr>v_emulatorArgs := Some (JArray [JString ''-m3''])\<rparr>
         else merged)"

definition getConfiguration :: "env \<Rightarrow> string + config_values" where
  "getConfiguration e = ensureMinimalConfiguration (checkedConfig e)"

subsection \<open>The edition with a string of emulator arguments\<close>

definition ensureMinimalConfiguration_string :: "config_values \<Rightarrow> string + config_values" where
  "ensureMinimalConfiguration_string config =
     (case ensurePath (v_emulatorPath config) default_emulatorPath of
        Inl err \<Rightarrow> Inl err
      | Inr emuPath \<Rightarrow>
     (case ensurePath (v_zmacPath config) ''zmac'' of
        Inl err \<Rightarrow> Inl err
      | Inr zPath \<Rightarrow>
     (case ensurePath (v_outputDir config) ''.zout'' of
        Inl err \<Rightarrow> Inl err
      | Inr outDir \<Rightarrow>
          Inr (config
            \<lparr>v_emulatorPath := emuPath,
             v_zmacPath := zPath,
             v_outputDir := outDir,
             v_emulatorArgs :=
               (if \<not> isString (v_emulatorArgs config) then Some (JString [])
                else v_emulatorArgs config),
             v_target :=
               (if \<not> truthy (v_target config) \<or> v_target config \<notin> set targets
                then Some (JString ''model3'') else v_target config),
             v_autoAssemble :=
               (if v_autoAssemble config = None \<or> v_autoAssemble config = Some JNull
                then Some (JBool True) else v_autoAssemble config)\<rparr>))))"

text \<open>
  Here the project configuration starts as the empty object, is read under the guard
  \<open>projectConfig &&\<close>, and the settings come after it. \<open>Object.keys(projectConfig)\<close>, for
  the log, throws on \<open>null\<close>.
\<close>

definition stringConfig :: "env \<Rightarrow> jsval \<Rightarrow> config_values" where
  "stringConfig e projectCfg =
     (let config = settings e;
          guarded = (\<lambda>k. if truthy (Some projectCfg) then getProp projectCfg k else None);
          outputDir1 = (case guarded ''outputDir'' of
                          None \<Rightarrow> Some (JString ''.zout'')
                        | Some v \<Rightarrow> Some v);
          emulatorArgs1 = (if isString (guarded ''emulatorArgs'') then guarded ''emulatorArgs''
                           else Some (JString []));
          target1 = (case guarded ''target'' of
                       None \<Rightarrow> Some (JString ''model3'')
                     | Some v \<Rightarrow> Some v);
          emulatorArgs2 = (if isString (config ''emulatorArgs'') then config ''emulatorArgs''
                           else emulatorArgs1);
          emulatorPath2 = (if isString (config ''emulatorPath'') \<and> truthy (config ''emulatorPath'')
                           then config ''emulatorPath'' else Some (JString default_emulatorPath));
          zmacPath2 = (if isString (config ''zmacPath'') \<and> truthy (config ''zmacPath'')
                       then config ''zmacPath'' else Some (JString ''zmac''));
          outputDir2 = (if isString (config ''defaultOutputDir'') \<and>
                           truthy (config ''defaultOutputDir'')
                        then config ''defaultOutputDir'' else outputDir1);
          target2 = (if isString (config ''defaultTarget'') \<and> truthy (config ''defaultTarget'')
                     then config ''defaultTarget'' else target1);
          autoAssemble2 = (case config ''autoAssemble'' of
                             Some (JBool b) \<Rightarrow> Some (JBool b)
                           | other \<Rightarrow> Some (JBool True));
          emulatorArgs3 = (if \<not> isString emulatorArgs2 then Some (JString ''-m3'')
                           else emulatorArgs2)
      in \<lparr>v_emulatorPath = emulatorPath2, v_zmacPath = zmacPath2, v_outputDir = outputDir2,
          v_emulatorArgs = emulatorArgs3, v_target = target2, v_autoAssemble = autoAssemble2,
          v_projectConfig = Some projectCfg\<rparr>)"

definition getConfiguration_string :: "env \<Rightarrow> string + config_values" where
  "getConfiguration_string e =
     (let projectCfg = (case readProjectConfig e of None \<Rightarrow> JObject [] | Some pc \<Rightarrow> pc)
      in if projectCfg = JNull then Inl ''TypeError: Object.keys''
         else ensureMinimalConfiguration_string (stringConfig e projectCfg))"

text \<open>What the configuration promises of a returned object.\<close>

definition nonblankString :: "jsval option \<Rightarrow> bool" where
  "nonblankString v = (case v of Some (JString s) \<Rightarrow> trim s \<noteq> [] | other \<Rightarrow> False)"

definition minimalConfig :: "config_values \<Rightarrow> bool" where
  "minimalConfig c =
     (nonblankString (v_emulatorPath c) \<and> nonblankString (v_zmacPath c) \<and>
      nonblankString (v_outputDir c) \<and> v_target c \<in> set targets \<and>
      v_autoAssemble c \<noteq> None \<and> v_autoAssemble c \<noteq> Some JNull)"

text \<open>A list of strings, the type \<open>emulatorArgs\<close> is declared with.\<close>

definition stringArray :: "jsval option \<Rightarrow> bool" where
  "stringArray v =
     (case v of Some (JArray xs) \<Rightarrow> list_all (\<lambda>x. isString (Some x)) xs | other \<Rightarrow> False)"

text \<open>
  A value of which \<open>!v || v.trim() === ''\<close> can be asked: one that counts as false, or a
  string.
\<close>

definition pathLike :: "jsval option \<Rightarrow> bool" where
  "pathLike v = (\<not> truthy v \<or> isString v)"

text \<open>
  A property of the project configuration, when there is one: \<open>undefined\<close> without the
  file, when it does not parse, and when it is \<open>null\<close>.
\<close>

definition projectProp :: "env \<Rightarrow> string \<Rightarrow> jsval option" where
  "projectProp e k =
     (case readProjectConfig e of
        None \<Rightarrow> None
      | Some projectCfg \<Rightarrow> if projectCfg = JNull then None else getProp projectCfg k)"

section \<open>Example hosts\<close>

definition tab :: string where
  "tab = [CHR 0x09]"

definition unlines :: "string list \<Rightarrow> string" where
  "unlines ls = (case ls of [] \<Rightarrow> [] | l # rest \<Rightarrow> foldl (\<lambda>a b. a @ [CHR 0x0A] @ b) l rest)"

definition demo_join :: "string list \<Rightarrow> string" where
  "demo_join ps = (case ps of [] \<Rightarrow> [] | q # qs \<Rightarrow> foldl (\<lambda>a b. a @ ''/'' @ b) q qs)"

text \<open>A source file of three lines, its listing and its symbol file.\<close>

definition demo_source :: string where
  "demo_source = unlines [''start:'', ''loop: ld a,1'', '' jp loop'']"

definition demo_listing :: string where
  "demo_listing =
     unlines [''   1:     -'' @ tab @ ''6000  '' @ tab @ ''start:'',
              ''   2:   7'' @ tab @ ''6000  3E01'' @ tab @ ''loop: ld a,1'',
              ''   3:   10'' @ tab @ ''6002  C30060'' @ tab @ '' jp loop'']"

definition demo_bds :: string where
  "demo_bds = unlines [''6000 a start'', ''6010 a loop'']"

definition demo_files :: "string \<Rightarrow> fnode" where
  "demo_files p =
     (if p = ''/ws/demo.a80'' then Present 1000 (Some demo_source)
      else if p = ''/ws/.zout/demo.lst'' then Present 2000 (Some demo_listing)
      else if p = ''/ws/.zout/demo.bds'' then Present 2000 (Some demo_bds)
      else if p = ''/ws/.zout/demo.cmd'' then Present 2000 (Some [])
      else if p = ''/ws/.zout'' then Present 2000 None
      else Absent)"

definition demo_env :: env where
  "demo_env =
     \<lparr>workspaceFolder = Some ''/ws'',
      files = demo_files,
      settings = (\<lambda>k. None),
      breakpoints = [SourceBreakpoint ''/ws/demo.a80'' 1],
      pathJoin = demo_join,
      baseName = (\<lambda>f. ''demo''),
      jsonParse = (\<lambda>t. None),
      mkdirThrows = (\<lambda>p. False),
      runProcess = (\<lambda>c a. Closed (Some 0) [] []),
      filesAfterRun = demo_files,
      spawnHasPid = (\<lambda>c. True),
      killThrows = (\<lambda>p s. False),
      now = 0\<rparr>"

definition demo_symbols :: "SymbolInfo list" where
  "demo_symbols =
     [\<lparr>address = 0x6000, label = ''start'', sym_file = None, sym_line = Some 1\<rparr>,
      \<lparr>address = 0x6010, label = ''loop'', sym_file = None, sym_line = Some 2\<rparr>]"

text \<open>A listing with two entries for line 2.\<close>

definition twice_listing :: string where
  "twice_listing =
     unlines [''   2:   7'' @ tab @ ''6003  3E01'', ''   2:   7'' @ tab @ ''6010  3E02'']"

definition twice_env :: env where
  "twice_env =
     demo_env\<lparr>files := (\<lambda>p. if p = ''/ws/.zout/demo.lst'' then Present 2000 (Some twice_listing)
                              else demo_files p)\<rparr>"

text \<open>
  A listing whose line 3 has an empty first column and, in its source text, a tab
  before a word of four hexadecimal digits.
\<close>

definition dead_listing :: string where
  "dead_listing = unlines ['' 3:'' @ tab @ ''6002 00'' @ tab @ ''dead nop'']"

definition dead_env :: env where
  "dead_env =
     demo_env\<lparr>files := (\<lambda>p. if p = ''/ws/.zout/demo.lst'' then Present 2000 (Some dead_listing)
                              else demo_files p)\<rparr>"

text \<open>Six breakpoints of the host, five of them in the source file.\<close>

definition five_env :: env where
  "five_env =
     demo_env\<lparr>breakpoints :=
       [SourceBreakpoint ''/ws/demo.a80'' 1, SourceBreakpoint ''/ws/demo.a80'' 2,
        OtherBreakpoint, SourceBreakpoint ''/ws/demo.a80'' 1,
        SourceBreakpoint ''/ws/demo.a80'' 2, SourceBreakpoint ''/ws/demo.a80'' 1]\<rparr>"

text \<open>
  A source file with the label \<open>loop\<close> on line 10, a listing that has an entry for line
  4 only, and the symbols \<open>start\<close> and \<open>loop\<close>.
\<close>

definition loop_source :: string where
  "loop_source =
     unlines [''; demo'', '' org 6000h'', ''start:'', '' ld a,1'', '' ld b,2'', '' ld c,3'',
              '' nop'', '' nop'', '' nop'', ''loop:'', '' jp loop'']"

definition loop_env :: env where
  "loop_env =
     demo_env\<lparr>files :=
       (\<lambda>p. if p = ''/ws/demo.a80'' then Present 1000 (Some loop_source)
            else if p = ''/ws/.zout/demo.lst''
            then Present 2000 (Some (''   4:   7'' @ tab @ ''6000  3E01''))
            else Absent)\<rparr>"

text \<open>A symbol file with an entry marker, and a host without breakpoints.\<close>

definition entry_bds :: string where
  "entry_bds = unlines [''6000 a start'', ''5000 e'', ''6003 a main'']"

definition entry_env :: env where
  "entry_env =
     demo_env\<lparr>files := (\<lambda>p. if p = ''/ws/.zout/demo.bds'' then Present 2000 (Some entry_bds)
                              else demo_files p),
              breakpoints := []\<rparr>"

text \<open>The result of \<open>performAssembly\<close> there: the source file is unchanged.\<close>

definition entry_result :: AssemblyResult where
  "entry_result =
     \<lparr>success = True, stdout = [], stderr = [],
      outputFiles = \<lparr>bds = Some ''/ws/.zout/demo.bds'', cmd = Some ''/ws/.zout/demo.cmd'',
                     lst = Some ''/ws/.zout/demo.lst''\<rparr>,
      errors = []\<rparr>"

text \<open>A symbol file without an entry marker, whose second symbol is \<open>MAIN\<close>.\<close>

definition main_bds :: string where
  "main_bds = unlines [''5000 a start'', ''6000 a MAIN'']"

definition main_env :: env where
  "main_env =
     demo_env\<lparr>files := (\<lambda>p. if p = ''/ws/.zout/demo.bds'' then Present 2000 (Some main_bds)
                              else demo_files p)\<rparr>"

definition demo_config :: TRS80Config where
  "demo_config =
     \<lparr>emulatorPath = ''/opt/trs80gp'', zmacPath = ''zmac'', outputDir = ''.zout'',
      emulatorArgs = [''-m3''], target = ''model3'', autoAssemble = True,
      projectConfig = None\<rparr>"

text \<open>The source file edited after the last assembly.\<close>

definition stale_env :: env where
  "stale_env =
     demo_env\<lparr>files := (\<lambda>p. if p = ''/ws/demo.a80'' then Present 3000 (Some demo_source)
                              else demo_files p)\<rparr>"

text \<open>An assembler that exits with code 0 and a line on standard error.\<close>

definition warn_env :: env where
  "warn_env = demo_env\<lparr>runProcess := (\<lambda>c a. Closed (Some 0) [] ''line 3: warning: unused'')\<rparr>"

text \<open>An assembler that cannot be spawned.\<close>

definition nozmac_env :: env where
  "nozmac_env = demo_env\<lparr>runProcess := (\<lambda>c a. SpawnError ''spawn zmac ENOENT'')\<rparr>"

text \<open>An assembler path that \<open>spawn\<close> refuses.\<close>

definition refused_env :: env where
  "refused_env = demo_env\<lparr>runProcess := (\<lambda>c a. SpawnThrows ''ERR_INVALID_ARG_VALUE'')\<rparr>"

text \<open>A manager with one emulator running, and nothing pending.\<close>

definition demo_instance :: EmulatorInstance where
  "demo_instance = \<lparr>pid = 1, startTime = 0, inst_sourceFile = ''/ws/demo.a80'', isDebugMode = False\<rparr>"

definition running_world :: world where
  "running_world =
     \<lparr>currentInstance = Some demo_instance, children = [1], listeners = [(1, StartExit 1)],
      timers = [], stops = [], ready = [], spawning = [], kills = [], spawns = [],
      rejected = 0, fresh = 2\<rparr>"

definition demo_start :: start_args where
  "demo_start =
     \<lparr>arg_emulatorPath = ''/opt/trs80gp'', arg_bdsFile = ''/ws/.zout/demo.bds'',
      arg_cmdFile = ''/ws/.zout/demo.cmd'', arg_sourceFile = ''/ws/demo.a80'',
      arg_modelArg = ''-m3'', arg_emulatorArgs = [], arg_breakpointArgs = [],
      arg_isDebugMode = False\<rparr>"

text \<open>A manager with no emulator.\<close>

definition idle_world :: world where
  "idle_world =
     \<lparr>currentInstance = None, children = [], listeners = [], timers = [], stops = [],
      ready = [], spawning = [], kills = [], spawns = [], rejected = 0, fresh = 2\<rparr>"

text \<open>
  Settings with a blank path, an unknown target and a string for the arguments, and a
  project configuration file that does not parse.
\<close>

definition messy_env :: env where
  "messy_env =
     demo_env\<lparr>settings :=
                (\<lambda>k. if k = ''emulatorPath'' then Some (JString ''   '')
                      else if k = ''defaultTarget'' then Some (JString ''model9'')
                      else if k = ''defaultEmulatorArgs'' then Some (JString ''-m1'')
                      else if k = ''autoAssemble'' then Some JNull
                      else None),
              files := (\<lambda>p. if p = ''/ws/.vscode/trs80gp.json'' then Present 1000 (Some ''{'')
                             else demo_files p)\<rparr>"

definition default_values :: config_values where
  "default_values =
     \<lparr>v_emulatorPath = Some (JString default_emulatorPath),
      v_zmacPath = Some (JString ''zmac''),
      v_outputDir = Some (JString ''.zout''),
      v_emulatorArgs = Some (JArray [JString ''-m3'']),
      v_target = Some (JString ''model3''),
      v_autoAssemble = Some (JBool True),
      v_projectConfig = None\<rparr>"

text \<open>Settings with a list of arguments that are no strings.\<close>

definition odd_env :: env where
  "odd_env =
     demo_env\<lparr>settings :=
                (\<lambda>k. if k = ''defaultEmulatorArgs''
                      then Some (JArray [JNumber 5, JNull, JObject []]) else None)\<rparr>"

text \<open>
  A project configuration that sets the output directory and the emulator arguments; the
  assembler has written its files there, and none are in \<open>.zout\<close>.
\<close>

definition project_config :: jsval where
  "project_config =
     JObject [(''outputDir'', JString ''build''), (''emulatorArgs'', JArray [JString ''-m4''])]"

definition project_json :: string where
  "project_json =
     ''{'' @ [CHR 0x22] @ ''outputDir'' @ [CHR 0x22] @ '': '' @ [CHR 0x22] @ ''build'' @
     [CHR 0x22] @ '', '' @ [CHR 0x22] @ ''emulatorArgs'' @ [CHR 0x22] @ '': ['' @ [CHR 0x22] @
     ''-m4'' @ [CHR 0x22] @ '']}''"

definition project_env :: env where
  "project_env =
     demo_env\<lparr>files :=
                (\<lambda>p. if p = ''/ws/.vscode/trs80gp.json'' then Present 1000 (Some project_json)
                      else if p = ''/ws/build/demo.lst'' then Present 2000 (Some demo_listing)
                      else if p = ''/ws/build/demo.bds'' then Present 2000 (Some demo_bds)
                      else if p = ''/ws/build/demo.cmd'' then Present 2000 (Some [])
                      else if p = ''/ws/build'' then Present 2000 None
                      else if p = ''/ws/demo.a80'' then Present 1000 (Some demo_source)
                      else Absent),
              jsonParse := (\<lambda>t. if t = project_json then Some project_config else None)\<rparr>"

section \<open>Properties\<close>

subsection \<open>Evaluation\<close>

lemmas js_eval =
  js_space_def js_space_chars_def js_digit_def js_upper_def js_lower_def js_hex_def
  js_word_def js_lineterm_def lower_char_def upper_char_def latin1_upper_def
  latin1_lower_def toLowerCase_def toUpperCase_def trim_def digit_chars_def digit_char_def
  toString_def digit_val_def is_digit_def strip_0x_def parseInt_def digits_of.simps

lemmas re_eval =
  spaces1_def hex4_def word1_def digits1_def lit_def at_end_def entryMatch_def
  labelMatch_def sourceMatch_def labelInSource_def simpleMatch_def complexMatch_def
  sourceLabel_def after_tab_def listingMatch_def


lemmas bm_eval =
  existsSync_def readFileSync_def statMtimeMs_def parseBdsLine_def parseBdsFile_def
  getEntryPoint_def nearestStep_def findAddressUsingNearestLabel_def listingFileOf_def
  findAddressForSourceLine_def getBreakpointAddresses_def


lemmas za_eval =
  lit_ci_def dot_plus_def errorAt_def simpleErrorAt_def severityOf_def zmacErrorsOfLine_def
  parseZmacErrors_def getOutputFiles_def needsAssembly_def assemble_def performAssembly_def
  prepareEmulatorArgs_def

lemmas demo_eval =
  tab_def unlines_def demo_join_def demo_source_def demo_listing_def demo_bds_def
  demo_files_def demo_env_def demo_symbols_def twice_listing_def twice_env_def dead_listing_def dead_env_def five_env_def
  loop_source_def loop_env_def entry_bds_def entry_env_def entry_result_def main_bds_def main_env_def
  demo_config_def stale_env_def warn_env_def nozmac_env_def refused_env_def demo_instance_def
  running_world_def idle_world_def demo_start_def split_lines_def messy_env_def
  default_values_def odd_env_def project_config_def project_json_def project_env_def

subsection \<open>Numbers rendered and parsed\<close>

lemma js_hex_cases:
  assumes "js_hex c"
  shows "c = CHR ''0'' \<or> c = CHR ''1'' \<or> c = CHR ''2'' \<or> c = CHR ''3'' \<or> c = CHR ''4'' \<or>
    c = CHR ''5'' \<or> c = CHR ''6'' \<or> c = CHR ''7'' \<or> c = CHR ''8'' \<or> c = CHR ''9'' \<or>
    c = CHR ''A'' \<or> c = CHR ''B'' \<or> c = CHR ''C'' \<or> c = CHR ''D'' \<or> c = CHR ''E'' \<or> c = CHR ''F'' \<or>
    c = CHR ''a'' \<or> c = CHR ''b'' \<or> c = CHR ''c'' \<or> c = CHR ''d'' \<or> c = CHR ''e'' \<or> c = CHR ''f''"
  using assms by (simp add: js_hex_def)

lemma js_hex_props:
  assumes "js_hex c"
  shows "\<not> js_space c" "c \<noteq> CHR ''-''" "c \<noteq> CHR ''+''" "c \<noteq> CHR ''x''" "c \<noteq> CHR ''X''"
    "is_digit 16 c"
  using js_hex_cases [OF assms] by (elim disjE; simp add: js_eval)+

lemma js_digit_cases:
  assumes "js_digit c"
  shows "c = CHR ''0'' \<or> c = CHR ''1'' \<or> c = CHR ''2'' \<or> c = CHR ''3'' \<or> c = CHR ''4'' \<or>
    c = CHR ''5'' \<or> c = CHR ''6'' \<or> c = CHR ''7'' \<or> c = CHR ''8'' \<or> c = CHR ''9''"
  using assms by (simp add: js_digit_def)

lemma js_digit_props:
  assumes "js_digit c"
  shows "\<not> js_space c" "c \<noteq> CHR ''-''" "c \<noteq> CHR ''+''" "is_digit 10 c"
  using js_digit_cases [OF assms] by (elim disjE; simp add: js_eval)+

lemma parseInt_plain:
  assumes "s \<noteq> []" and "\<forall>c\<in>set s. is_digit r c \<and> \<not> js_space c \<and> c \<noteq> CHR ''-'' \<and> c \<noteq> CHR ''+''"
    and "strip_0x r s = s"
  shows "parseInt s r = Some (int (digits_value r 0 s))"
proof -
  obtain c cs where s: "s = c # cs" using assms(1) by (cases s) auto
  have c: "\<not> js_space c" "c \<noteq> CHR ''-''" "c \<noteq> CHR ''+''" using assms(2) s by simp_all
  have t: "dropWhile js_space s = s" using s c(1) by simp
  have tw: "takeWhile (is_digit r) s = s" using assms(2) by simp
  show ?thesis
    using s c t tw assms(1,3)
    by (simp add: parseInt_def Let_def del: dropWhile.simps)
qed

lemma strip_0x_hex:
  assumes "\<forall>c\<in>set s. js_hex c"
  shows "strip_0x 16 s = s"
proof (cases s)
  case Nil
  then show ?thesis by (simp add: strip_0x_def)
next
  case (Cons c cs)
  show ?thesis
  proof (cases cs)
    case Nil
    then show ?thesis using Cons by (simp add: strip_0x_def)
  next
    case (Cons d ds)
    then have "js_hex d" using assms \<open>s = c # cs\<close> by simp
    then show ?thesis using \<open>s = c # cs\<close> Cons js_hex_props(4,5) by (simp add: strip_0x_def)
  qed
qed

lemma strip_0x_other: "r \<noteq> 16 \<Longrightarrow> strip_0x r s = s"
  by (simp add: strip_0x_def split: list.splits)

lemma parseInt_hex:
  assumes "s \<noteq> []" and "\<forall>c\<in>set s. js_hex c"
  shows "parseInt s 16 = Some (int (digits_value 16 0 s))"
  using assms js_hex_props strip_0x_hex by (intro parseInt_plain) auto

lemma parseInt_digits:
  assumes "s \<noteq> []" and "\<forall>c\<in>set s. js_digit c"
  shows "parseInt s 10 = Some (int (digits_value 10 0 s))"
  using assms js_digit_props strip_0x_other [of 10] by (intro parseInt_plain) auto

lemma upper_hex_digit_char:
  assumes "d < 16"
  shows "upper_hex (upper_char (digit_char d)) \<and> digit_val 16 (upper_char (digit_char d)) = Some d"
proof -
  from assms have "d = 0 \<or> d = 1 \<or> d = 2 \<or> d = 3 \<or> d = 4 \<or> d = 5 \<or> d = 6 \<or> d = 7 \<or> d = 8 \<or>
      d = 9 \<or> d = 10 \<or> d = 11 \<or> d = 12 \<or> d = 13 \<or> d = 14 \<or> d = 15"
    by arith
  then show ?thesis
    by (elim disjE) (simp_all add: upper_hex_def js_eval)
qed

lemma upper_hex_js_hex: "upper_hex c \<Longrightarrow> js_hex c"
  by (auto simp: upper_hex_def js_hex_def)

lemma digits_value_snoc:
  "digits_value r acc (xs @ [c]) =
     digits_value r acc xs * r + (case digit_val r c of Some d \<Rightarrow> d | None \<Rightarrow> 0)"
  by (induction xs arbitrary: acc) simp_all

lemma render_digits:
  "list_all upper_hex (map upper_char (digits_of 16 n)) \<and>
   digits_of 16 n \<noteq> [] \<and>
   digits_value 16 0 (map upper_char (digits_of 16 n)) = n"
proof (induction "16::nat" n rule: digits_of.induct)
  case (1 n)
  show ?case
  proof (cases "n < 16")
    case True
    then show ?thesis
      using upper_hex_digit_char [of n] by (simp add: digits_of.simps [of 16 n])
  next
    case False
    then have ih: "list_all upper_hex (map upper_char (digits_of 16 (n div 16)))"
      "digits_value 16 0 (map upper_char (digits_of 16 (n div 16))) = n div 16"
      using "1" by simp_all
    have m: "n mod 16 < 16" by simp
    from False ih upper_hex_digit_char [OF m] show ?thesis
      by (simp add: digits_of.simps [of 16 n] digits_value_snoc)
  qed
qed

lemma digits_of_nonempty: "digits_of r n \<noteq> []"
  by (simp add: digits_of.simps [of r n])

lemma digits_of_length_le:
  "n < 16 ^ Suc k \<Longrightarrow> length (digits_of 16 n) \<le> Suc k"
proof (induction k arbitrary: n)
  case 0
  then show ?case by (simp add: digits_of.simps [of 16 n])
next
  case (Suc k)
  show ?case
  proof (cases "n < 16")
    case True
    then show ?thesis by (simp add: digits_of.simps [of 16 n])
  next
    case False
    from Suc.prems have "n div 16 < 16 ^ Suc k" by (simp add: less_mult_imp_div_less)
    from Suc.IH [OF this] False show ?thesis by (simp add: digits_of.simps [of 16 n])
  qed
qed

lemma digits_of_length_ge:
  "16 ^ k \<le> n \<Longrightarrow> Suc k \<le> length (digits_of 16 n)"
proof (induction k arbitrary: n)
  case 0
  have "digits_of 16 n \<noteq> []" by (rule digits_of_nonempty)
  then show ?case by (cases "digits_of 16 n") simp_all
next
  case (Suc k)
  have "(16::nat) \<le> 16 ^ Suc k" by simp
  with Suc.prems have n: "\<not> n < 16" by linarith
  from Suc.prems have "16 ^ k * 16 \<le> n" by (simp add: mult.commute)
  then have "16 ^ k \<le> n div 16" by (simp add: less_eq_div_iff_mult_less_eq)
  from Suc.IH [OF this] n show ?case by (simp add: digits_of.simps [of 16 n])
qed

lemma render_nat:
  assumes "0 \<le> x"
  shows "renderAddress x = map upper_char (digits_of 16 (nat x))"
  using assms by (simp add: renderAddress_def toString_def toUpperCase_def)

lemma render_length:
  "0x1000 \<le> x \<Longrightarrow> x \<le> 0xFFFF \<Longrightarrow> length (renderAddress x) = 4"
  "0 \<le> x \<Longrightarrow> x < 0x1000 \<Longrightarrow> length (renderAddress x) < 4"
proof -
  assume a: "0x1000 \<le> x" "x \<le> 0xFFFF"
  then have "16 ^ 3 \<le> nat x" "nat x < 16 ^ Suc 3" by simp_all
  from digits_of_length_ge [OF this(1)] digits_of_length_le [OF this(2)] a
  show "length (renderAddress x) = 4" by (simp add: render_nat)
next
  assume a: "0 \<le> x" "x < 0x1000"
  then have "nat x < 16 ^ Suc 2" by simp
  from digits_of_length_le [OF this] a
  show "length (renderAddress x) < 4" by (simp add: render_nat)
qed

lemma render_hex:
  assumes "0 \<le> x"
  shows "list_all upper_hex (renderAddress x)" "list_all js_hex (renderAddress x)"
    "parseInt (renderAddress x) 16 = Some x"
proof -
  note r = render_digits [of "nat x"]
  show u: "list_all upper_hex (renderAddress x)"
    using r assms by (simp add: render_nat)
  then show h: "list_all js_hex (renderAddress x)"
    using upper_hex_js_hex by (auto simp: list_all_iff)
  have "renderAddress x \<noteq> []"
    using assms by (simp add: render_nat digits_of_nonempty)
  from parseInt_hex [OF this] h r assms show "parseInt (renderAddress x) 16 = Some x"
    by (simp add: render_nat list_all_iff)
qed

text \<open>
  C9, as amended: an address from \<open>0x1000\<close> to \<open>0xFFFF\<close>, rendered as it is for the
  breakpoint flags of the emulator, is four hexadecimal digits in upper case, and the
  address parsing of the program reads the address back from them. An address below
  \<open>0x1000\<close> is rendered with fewer than four digits, which that parsing does not read;
  \<open>parseInt\<close> alone gives back every address from 0 to \<open>0xFFFF\<close>.
\<close>

theorem address_roundtrip:
  "(0x1000 \<le> x \<and> x \<le> 0xFFFF \<longrightarrow>
      parseAddress (renderAddress x) = Some x \<and> length (renderAddress x) = 4) \<and>
   (0 \<le> x \<and> x < 0x1000 \<longrightarrow>
      parseAddress (renderAddress x) = None \<and> length (renderAddress x) < 4) \<and>
   (0 \<le> x \<and> x \<le> 0xFFFF \<longrightarrow>
      list_all upper_hex (renderAddress x) \<and> parseInt (renderAddress x) 16 = Some x) \<and>
   formatBreakpointsForEmulator [bp] = [''-b'', renderAddress (bp_address bp)]"
proof (intro conjI impI)
  assume a: "0x1000 \<le> x \<and> x \<le> 0xFFFF"
  then have x: "0 \<le> x" by simp
  from a show l: "length (renderAddress x) = 4" by (simp add: render_length)
  then have "hex4 (renderAddress x) = Some (renderAddress x, [])"
    using render_hex(2) [OF x] by (simp add: hex4_def)
  then show "parseAddress (renderAddress x) = Some x"
    using render_hex(3) [OF x] by (simp add: parseAddress_def)
next
  assume a: "0 \<le> x \<and> x < 0x1000"
  then show l: "length (renderAddress x) < 4" by (simp add: render_length)
  then have "hex4 (renderAddress x) = None" by (simp add: hex4_def)
  then show "parseAddress (renderAddress x) = None" by (simp add: parseAddress_def)
next
  assume a: "0 \<le> x \<and> x \<le> 0xFFFF"
  then show "list_all upper_hex (renderAddress x)" "parseInt (renderAddress x) 16 = Some x"
    by (simp_all add: render_hex)
next
  show "formatBreakpointsForEmulator [bp] = [''-b'', renderAddress (bp_address bp)]"
    by (simp add: renderAddress_def)
qed

subsection \<open>The listing\<close>

lemma hex4_Some:
  assumes "hex4 s = Some (h, r)"
  shows "h \<noteq> [] \<and> (\<forall>c\<in>set h. js_hex c) \<and> length h = 4 \<and> s = h @ r"
  using assms by (auto simp: hex4_def list_all_iff split: if_splits)

lemma digits1_Some:
  assumes "digits1 s = Some (d, r)"
  shows "d \<noteq> [] \<and> (\<forall>c\<in>set d. js_digit c) \<and> s = d @ r"
  using assms by (auto simp: digits1_def split: if_splits dest: set_takeWhileD)

lemma after_tab_Some:
  assumes "after_tab s = Some h"
  shows "h \<noteq> [] \<and> (\<forall>c\<in>set h. js_hex c)"
  using assms hex4_Some
  by (auto simp: after_tab_def bind_eq_Some_conv)

lemma listing_rest_Some:
  "listing_rest s = Some h \<Longrightarrow> h \<noteq> [] \<and> (\<forall>c\<in>set h. js_hex c)"
proof (induction s)
  case Nil
  then show ?case using after_tab_Some [of "[]" h] by simp
next
  case (Cons c cs)
  then show ?case
    using after_tab_Some [of "c # cs" h]
    by (auto split: if_splits option.splits)
qed

lemma listingMatch_Some:
  assumes "listingMatch l = Some (lineStr, addressHex)"
  shows "parseInt lineStr 10 = Some (int (digits_value 10 0 lineStr)) \<and>
         parseInt addressHex 16 = Some (int (digits_value 16 0 addressHex))"
proof -
  from assms obtain r1 r2 where d: "digits1 (dropWhile js_space l) = Some (lineStr, r1)"
    and h: "listing_rest r2 = Some addressHex"
    by (auto simp: listingMatch_def bind_eq_Some_conv)
  show ?thesis
    using digits1_Some [OF d] listing_rest_Some [OF h] parseInt_digits parseInt_hex by simp
qed












subsection \<open>The cut to four breakpoints\<close>

lemma collectBreakpoints_resolved:
  "collectBreakpoints e symbolMap bs acc = acc @ List.map_filter (resolveBreakpoint e symbolMap) bs"
proof (induction bs arbitrary: acc)
  case Nil
  then show ?case by simp
next
  case (Cons b bs)
  show ?case
  proof (cases b)
    case OtherBreakpoint
    then show ?thesis using Cons by (simp add: resolveBreakpoint_def)
  next
    case (SourceBreakpoint sourceFile line0)
    then show ?thesis
      using Cons
      by (cases "findAddressForSourceLine e sourceFile (int line0 + 1) symbolMap")
        (simp_all add: resolveBreakpoint_def Let_def)
  qed
qed

lemma formatBreakpointsForEmulator_length:
  "length (formatBreakpointsForEmulator bps) = 2 * length bps"
  by (induction bps) simp_all

lemma formatBreakpointArgs_length:
  "length (formatBreakpointArgs addresses) = 2 * min (length addresses) 4"
  by (simp add: formatBreakpointArgs_def Let_def length_concat o_def sum_list_triv)

text \<open>
  C2: the list \<open>getBreakpointAddresses\<close> returns is the first four of the breakpoints
  that resolve, in the order of the host, so it never has more than four entries and
  has exactly four when more than four resolve; the breakpoint flags built from it, and
  those \<open>formatBreakpointArgs\<close> builds from any list of addresses, are at most four
  pairs.
\<close>

theorem breakpoint_cap:
  "getBreakpointAddresses e bdsFile = take 4 (resolvedBreakpoints e bdsFile) \<and>
   length (getBreakpointAddresses e bdsFile) \<le> 4 \<and>
   (4 < length (resolvedBreakpoints e bdsFile) \<longrightarrow> length (getBreakpointAddresses e bdsFile) = 4) \<and>
   length (formatBreakpointsForEmulator (getBreakpointAddresses e bdsFile)) \<le> 2 * 4 \<and>
   length (formatBreakpointArgs addresses) \<le> 2 * 4"
proof -
  have eq: "getBreakpointAddresses e bdsFile = take 4 (resolvedBreakpoints e bdsFile)"
    by (simp add: getBreakpointAddresses_def resolvedBreakpoints_def collectBreakpoints_resolved)
  then show ?thesis
    by (simp add: formatBreakpointsForEmulator_length formatBreakpointArgs_length)
qed

subsection \<open>The fallback chain\<close>





subsection \<open>The entry point\<close>

lemma entryScan_first:
  assumes "\<forall>x\<in>set pre. entryMatch (trim x) = None" and "entryMatch (trim l) = Some addressStr"
  shows "entryScan (pre @ l # post) = Some addressStr"
  using assms by (induction pre) simp_all

lemma entryMatch_Some:
  assumes "entryMatch s = Some addressStr"
  shows "parseInt addressStr 16 = Some (int (digits_value 16 0 addressStr))"
proof -
  from assms obtain r where "hex4 s = Some (addressStr, r)"
    by (auto simp: entryMatch_def bind_eq_Some_conv at_end_def split: if_splits)
  from hex4_Some [OF this] show ?thesis by (simp add: parseInt_hex)
qed

text \<open>
  C4, as amended: with the symbol file read, \<open>getEntryPoint\<close> returns, in this order of
  priority, the address of the first line tagged as the entry marker; else the address
  of the first symbol whose label is \<open>main\<close> when letter case is ignored; else the
  address of the first symbol in the order of the file; and nothing when there is no
  symbol. When no breakpoint resolves in debug mode, the breakpoint arguments that
  \<open>prepareEmulatorArgs\<close> returns are one breakpoint flag for that address, and none when
  there is no entry point; without a path of the symbol file, or with the empty one,
  there are no breakpoint arguments.
\<close>

theorem entry_point_priority:
  assumes "readFileSync e bdsFile = Some content"
  shows
   "(\<forall>pre l post addressStr.
       split_lines content = pre @ l # post \<and> (\<forall>x\<in>set pre. entryMatch (trim x) = None) \<and>
       entryMatch (trim l) = Some addressStr \<longrightarrow>
       getEntryPoint e bdsFile = Some (int (digits_value 16 0 addressStr)) \<and>
       parseInt addressStr 16 = Some (int (digits_value 16 0 addressStr))) \<and>
    (\<forall>mainSymbol.
       entryScan (split_lines content) = None \<and>
       find (\<lambda>s. toLowerCase (label s) = ''main'') (parseBdsFile e bdsFile) = Some mainSymbol \<longrightarrow>
       getEntryPoint e bdsFile = Some (address mainSymbol)) \<and>
    (\<forall>s rest.
       entryScan (split_lines content) = None \<and>
       find (\<lambda>s. toLowerCase (label s) = ''main'') (parseBdsFile e bdsFile) = None \<and>
       parseBdsFile e bdsFile = s # rest \<longrightarrow>
       getEntryPoint e bdsFile = Some (address s)) \<and>
    (entryScan (split_lines content) = None \<and> parseBdsFile e bdsFile = [] \<longrightarrow>
       getEntryPoint e bdsFile = None) \<and>
    (bds (outputFiles assemblyResult) = Some bdsFile \<and> bdsFile \<noteq> [] \<and>
     getBreakpointAddresses e bdsFile = [] \<longrightarrow>
       snd (prepareEmulatorArgs e config assemblyResult True) =
         (case getEntryPoint e bdsFile of
            Some entryPoint \<Rightarrow> [''-b'', renderAddress entryPoint]
          | None \<Rightarrow> [])) \<and>
    (bds (outputFiles assemblyResult) = None \<or> bds (outputFiles assemblyResult) = Some [] \<longrightarrow>
       snd (prepareEmulatorArgs e config assemblyResult True) = [])"
proof -
  have ex: "existsSync e bdsFile"
    using assms by (auto simp: existsSync_def readFileSync_def split: fnode.splits)
  have marker: "getEntryPoint e bdsFile = Some (int (digits_value 16 0 addressStr)) \<and>
       parseInt addressStr 16 = Some (int (digits_value 16 0 addressStr))"
    if "split_lines content = pre @ l # post" "\<forall>x\<in>set pre. entryMatch (trim x) = None"
      "entryMatch (trim l) = Some addressStr" for pre l post addressStr
    using that assms ex entryScan_first [of pre l addressStr post] entryMatch_Some [of "trim l" addressStr]
    by (simp add: getEntryPoint_def)
  have rest: "entryScan (split_lines content) = None \<Longrightarrow>
      getEntryPoint e bdsFile =
        (case find (\<lambda>s. toLowerCase (label s) = ''main'') (parseBdsFile e bdsFile) of
           Some mainSymbol \<Rightarrow> Some (address mainSymbol)
         | None \<Rightarrow> (case parseBdsFile e bdsFile of [] \<Rightarrow> None | s # rest \<Rightarrow> Some (address s)))"
    using assms ex by (simp add: getEntryPoint_def Let_def)
  have prep: "bds (outputFiles assemblyResult) = Some bdsFile \<and> bdsFile \<noteq> [] \<and>
       getBreakpointAddresses e bdsFile = [] \<longrightarrow>
       snd (prepareEmulatorArgs e config assemblyResult True) =
         (case getEntryPoint e bdsFile of
            Some entryPoint \<Rightarrow> [''-b'', renderAddress entryPoint]
          | None \<Rightarrow> [])"
    by (simp add: prepareEmulatorArgs_def renderAddress_def split: option.splits)
  have none: "bds (outputFiles assemblyResult) = None \<or>
       bds (outputFiles assemblyResult) = Some [] \<longrightarrow>
       snd (prepareEmulatorArgs e config assemblyResult True) = []"
    by (auto simp: prepareEmulatorArgs_def)
  show ?thesis
    using marker rest prep none by (auto simp del: split_paired_All)
qed

text \<open>
  \<open>TRS80Commands.startEmulator\<close> never reaches \<open>spawn\<close>: the list of breakpoint arguments
  arrives as \<open>emulatorArgs\<close>.
\<close>

lemma command_start_throws:
  "isl (startEmulator_command config assemblyResult sourceFile emuArgs breakpointArgs isDebug)"
  by (simp add: startEmulator_command_def startEmulator_actuals_def userArgsOf_def
      split: option.splits)

subsection \<open>Assembly\<close>

text \<open>
  C5: with both modification times readable, a source file that is not strictly newer
  than the \<open>.bds\<close> file is not assembled: no process is spawned, and the result is a
  success with no diagnostics. A source file that is newer is assembled: the assembler
  is spawned, once.
\<close>

theorem unchanged_source_is_not_assembled:
  assumes "workspaceFolder e = Some ws"
    and "outputBds = pathJoin e [pathJoin e [ws, outputDir config], baseName e sourceFile @ ''.bds'']"
    and "statMtimeMs e sourceFile = Some sourceMtime"
    and "statMtimeMs e outputBds = Some bdsMtime"
    and "existsSync e (pathJoin e [ws, outputDir config])"
  shows
   "(sourceMtime \<le> bdsMtime \<longrightarrow>
       snd (performAssembly e sourceFile config) = [] \<and>
       (\<exists>r. fst (performAssembly e sourceFile config) = Inr (Some r) \<and> success r \<and> errors r = [])) \<and>
    (bdsMtime < sourceMtime \<longrightarrow>
       (\<exists>args. snd (performAssembly e sourceFile config) = [(zmacPath config, args)]))"
proof -
  have ex: "existsSync e outputBds"
    using assms(4) by (auto simp: existsSync_def statMtimeMs_def split: fnode.splits)
  have na: "needsAssembly e sourceFile outputBds = (bdsMtime < sourceMtime)"
    using ex assms(3,4) by (simp add: needsAssembly_def)
  show ?thesis
    using assms(1,5) assms(2) [symmetric] na
    by (auto simp: performAssembly_def assemble_def Let_def split: proc_outcome.splits)
qed

text \<open>
  C6, as amended: when the assembler reaches its exit, \<open>success\<close> is true exactly when
  the exit code is zero, whatever diagnostics are parsed from the standard error; when
  the process cannot be started and the child has the \<open>error\<close> event, the promise still
  resolves, to a result with \<open>success\<close> false and one diagnostic, an error on line 1 of
  the requested source file; when \<open>spawn\<close> itself throws, the promise is rejected with
  what it threw.
\<close>

theorem assemble_success_is_exit_code:
  assumes "workspaceFolder e = Some ws"
    and "existsSync e (pathJoin e [ws, dir]) \<or> \<not> mkdirThrows e (pathJoin e [ws, dir])"
    and "args = [''--od'', pathJoin e [ws, dir]] @ zmacArgs @ [sourceFile]"
  shows
   "(\<forall>code out err.
       runProcess e zmac args = Closed code out err \<longrightarrow>
       (\<exists>r. fst (assemble e sourceFile dir zmac zmacArgs) = Inr r \<and>
            success r = (code = Some 0) \<and> errors r = parseZmacErrors err sourceFile)) \<and>
    (\<forall>message.
       runProcess e zmac args = SpawnError message \<longrightarrow>
       (\<exists>r. fst (assemble e sourceFile dir zmac zmacArgs) = Inr r \<and>
            \<not> success r \<and>
            errors r =
              [\<lparr>err_file = sourceFile, err_line = 1, err_column = None,
                err_message = ''Failed to start zmac: '' @ message, err_severity = Error\<rparr>])) \<and>
    (\<forall>message.
       runProcess e zmac args = SpawnThrows message \<longrightarrow>
       fst (assemble e sourceFile dir zmac zmacArgs) = Inl message)"
  using assms by (auto simp: assemble_def Let_def)

subsection \<open>Stopping and starting the emulator\<close>

lemma resume_fields [simp]:
  "currentInstance (resume e c w) = currentInstance w"
  "stops (resume e c w) = stops w"
  "timers (resume e c w) = timers w"
  "kills (resume e c w) = kills w"
  by (cases c; simp add: spawnEmulator_def Let_def)+

lemma foldl_resume_fields [simp]:
  "currentInstance (foldl (\<lambda>v c. resume e c v) w cs) = currentInstance w"
  "stops (foldl (\<lambda>v c. resume e c v) w cs) = stops w"
  "timers (foldl (\<lambda>v c. resume e c v) w cs) = timers w"
  "kills (foldl (\<lambda>v c. resume e c v) w cs) = kills w"
  by (induction cs arbitrary: w) simp_all

lemma drain_fields [simp]:
  "currentInstance (drain e w) = currentInstance w"
  "stops (drain e w) = stops w"
  "timers (drain e w) = timers w"
  "kills (drain e w) = kills w"
  by (simp_all add: drain_def)

lemma drain_return [simp]: "ready w = [ThenReturn] \<Longrightarrow> drain e w = w\<lparr>ready := []\<rparr>"
  by (simp add: drain_def)

lemma drain_nothing [simp]: "ready w = [] \<Longrightarrow> drain e w = w"
  by (simp add: drain_def)

lemma cleanup_fields [simp]:
  "currentInstance (cleanup k w) = None"
  "timers (cleanup k w) = timers w"
  "kills (cleanup k w) = kills w"
  "fst ` set (stops (cleanup k w)) = fst ` set (stops w) - {k}"
  by (auto simp: cleanup_def map_of_eq_None_iff split: option.splits)

lemma runListener_stops:
  "fst ` set (stops (runListener l w)) \<subseteq> fst ` set (stops w)"
  by (cases l) (auto split: option.splits)

lemma runListener_cleared:
  assumes "k \<notin> fst ` set (stops (runListener l w))"
    and "k \<in> fst ` set (stops w) \<or> currentInstance w = None"
  shows "currentInstance (runListener l w) = None"
proof (cases l)
  case (StartExit p)
  then show ?thesis using assms by (auto split: option.splits)
next
  case (StopExit j)
  then show ?thesis by simp
qed

lemma listeners_cleared:
  assumes "k \<in> fst ` set (stops w)"
    and "k \<notin> fst ` set (stops (foldl (\<lambda>v l. runListener l v) w ls))"
  shows "currentInstance (foldl (\<lambda>v l. runListener l v) w ls) = None"
  using assms
proof (induction ls rule: rev_induct)
  case Nil
  then show ?case by simp
next
  case (snoc l ls)
  let ?v = "foldl (\<lambda>v l. runListener l v) w ls"
  have "k \<in> fst ` set (stops ?v) \<or> currentInstance ?v = None"
  proof (cases "k \<in> fst ` set (stops ?v)")
    case True
    then show ?thesis by simp
  next
    case False
    then show ?thesis using snoc.IH [OF snoc.prems(1)] by simp
  qed
  then show ?case
    using runListener_cleared [of k l ?v] snoc.prems(2) by simp
qed

lemma stop_resolved_clears:
  assumes "k \<in> fst ` set (stops w)" and "k \<notin> fst ` set (stops (step e w ev))"
  shows "currentInstance (step e w ev) = None"
proof (cases ev)
  case (CallStart a)
  then show ?thesis
    using assms by (auto simp: stopEmulator_def Let_def split: option.splits if_splits)
next
  case CallStop
  then show ?thesis
    using assms by (auto simp: stopEmulator_def Let_def split: option.splits if_splits)
next
  case (Exit p)
  show ?thesis
  proof (cases "p \<in> set (children w)")
    case False
    then show ?thesis using assms Exit by (simp add: onExit_def)
  next
    case True
    let ?w0 = "w\<lparr>children := filter (\<lambda>q. q \<noteq> p) (children w),
                   listeners := filter (\<lambda>l. fst l \<noteq> p) (listeners w)\<rparr>"
    have "stops ?w0 = stops w" by simp
    then show ?thesis
      using assms Exit True
        listeners_cleared [of k ?w0 "map snd (filter (\<lambda>l. fst l = p) (listeners w))"]
      by (simp add: onExit_def)
  qed
next
  case (Timeout j)
  then show ?thesis
    using assms by (auto simp: onTimeout_def split: option.splits)
next
  case (Spawned p)
  then show ?thesis
    using assms by (auto simp: onSpawn_def split: option.splits)
qed


lemma runListener_kills [simp]: "kills (runListener l w) = kills w"
  by (cases l) (auto simp: cleanup_def split: option.splits)

lemma foldl_runListener_kills [simp]:
  "kills (foldl (\<lambda>v l. runListener l v) w ls) = kills w"
  by (induction ls arbitrary: w) simp_all

lemma find_append_new:
  assumes "\<forall>t\<in>set ts. fst t \<noteq> k"
  shows "find (\<lambda>t. fst t = k) (ts @ [(k, v)]) = Some (k, v)"
  using assms by (induction ts) auto

lemma update_ready_same: "ready w = [] \<Longrightarrow> w\<lparr>ready := []\<rparr> = w"
  by (cases w) simp

text \<open>
  C7: \<open>stopEmulator\<close> with no instance stored changes nothing and is complete at once.
  With an instance stored it sends \<open>SIGTERM\<close>. When sending throws, the instance is
  cleared at once and nothing is left pending. Otherwise a timer of 2000 ms and an
  \<open>exit\<close> listener are left pending; the timer sends \<open>SIGKILL\<close>, the exit of the child
  sends nothing more, and either ends with the promise resolved and the stored instance
  cleared, whether or not sending a signal throws. Whatever else happens in between, the
  event in which the promise of a pending call is resolved leaves the stored instance
  cleared.
\<close>

theorem stop_paths:
  assumes "ready w = []"
    and "\<forall>k\<in>fst ` set (stops w) \<union> fst ` set (timers w). k < fresh w"
  shows
    "(currentInstance w = None \<longrightarrow> step e w CallStop = w) \<and>
     (\<forall>inst. currentInstance w = Some inst \<longrightarrow>
        kills (step e w CallStop) = kills w @ [(pid inst, SIGTERM)] \<and>
        (killThrows e (pid inst) SIGTERM \<longrightarrow>
           currentInstance (step e w CallStop) = None \<and>
           stops (step e w CallStop) = stops w \<and>
           timers (step e w CallStop) = timers w) \<and>
        (\<not> killThrows e (pid inst) SIGTERM \<longrightarrow>
           timers (step e w CallStop) = timers w @ [(fresh w, pid inst, 2000)] \<and>
           stops (step e w CallStop) = stops w @ [(fresh w, ThenReturn)] \<and>
           listeners (step e w CallStop) = listeners w @ [(pid inst, StopExit (fresh w))] \<and>
           currentInstance (step e (step e w CallStop) (Timeout (fresh w))) = None \<and>
           fresh w \<notin> fst ` set (stops (step e (step e w CallStop) (Timeout (fresh w)))) \<and>
           kills (step e (step e w CallStop) (Timeout (fresh w))) =
             kills w @ [(pid inst, SIGTERM), (pid inst, SIGKILL)] \<and>
           (pid inst \<in> set (children w) \<longrightarrow>
              currentInstance (step e (step e w CallStop) (Exit (pid inst))) = None \<and>
              fresh w \<notin> fst ` set (stops (step e (step e w CallStop) (Exit (pid inst)))) \<and>
              fresh w \<notin> fst ` set (timers (step e (step e w CallStop) (Exit (pid inst)))) \<and>
              kills (step e (step e w CallStop) (Exit (pid inst))) =
                kills w @ [(pid inst, SIGTERM)]))) \<and>
     (\<forall>k ev. k \<in> fst ` set (stops w) \<and> k \<notin> fst ` set (stops (step e w ev)) \<longrightarrow>
        currentInstance (step e w ev) = None)"
proof (intro conjI allI impI)
  assume "currentInstance w = None"
  then show "step e w CallStop = w"
    using assms(1) by (simp add: stopEmulator_def update_ready_same)
next
  fix k ev
  assume "k \<in> fst ` set (stops w) \<and> k \<notin> fst ` set (stops (step e w ev))"
  then show "currentInstance (step e w ev) = None"
    using stop_resolved_clears by blast
next
  fix inst
  assume ci: "currentInstance w = Some inst"
  show "kills (step e w CallStop) = kills w @ [(pid inst, SIGTERM)]"
    using ci by (simp add: stopEmulator_def Let_def)
  {
    assume th: "killThrows e (pid inst) SIGTERM"
    show "currentInstance (step e w CallStop) = None"
      "stops (step e w CallStop) = stops w" "timers (step e w CallStop) = timers w"
      using ci th by (simp_all add: stopEmulator_def Let_def)
  }
  assume nt: "\<not> killThrows e (pid inst) SIGTERM"
  let ?k = "fresh w"
  let ?w1 = "step e w CallStop"
  have s1: "stopEmulator e ThenReturn w =
                w\<lparr>kills := kills w @ [(pid inst, SIGTERM)],
                    timers := timers w @ [(?k, pid inst, 2000)],
                    listeners := listeners w @ [(pid inst, StopExit ?k)],
                    stops := stops w @ [(?k, ThenReturn)],
                    fresh := ?k + 1\<rparr>"
    using ci nt by (simp add: stopEmulator_def Let_def)
  have w1: "?w1 = w\<lparr>kills := kills w @ [(pid inst, SIGTERM)],
                    timers := timers w @ [(?k, pid inst, 2000)],
                    listeners := listeners w @ [(pid inst, StopExit ?k)],
                    stops := stops w @ [(?k, ThenReturn)],
                    fresh := ?k + 1\<rparr>"
    using assms(1) by (simp add: s1)
  show "timers ?w1 = timers w @ [(?k, pid inst, 2000)]"
    "stops ?w1 = stops w @ [(?k, ThenReturn)]"
    "listeners ?w1 = listeners w @ [(pid inst, StopExit ?k)]"
    by (simp_all only: w1) simp_all
  have fr: "\<forall>t\<in>set (timers w). fst t \<noteq> ?k" "\<forall>t\<in>set (stops w). fst t \<noteq> ?k"
  proof -
    have "\<forall>t\<in>set (timers w). fst t < ?k" "\<forall>t\<in>set (stops w). fst t < ?k"
      using assms(2) by (simp_all add: ball_Un)
    then show "\<forall>t\<in>set (timers w). fst t \<noteq> ?k" "\<forall>t\<in>set (stops w). fst t \<noteq> ?k"
      by fastforce+
  qed
  have tm: "find (\<lambda>t. fst t = ?k) (timers ?w1) = Some (?k, pid inst, 2000)"
    using find_append_new [OF fr(1)] by (simp only: w1) simp
  have to: "step e ?w1 (Timeout ?k) =
      drain e (cleanup ?k (?w1\<lparr>timers := filter (\<lambda>t. fst t \<noteq> ?k) (timers ?w1),
                                 kills := kills ?w1 @ [(pid inst, SIGKILL)]\<rparr>))"
    using tm by (simp only: step.simps onTimeout_def) simp
  show "currentInstance (step e ?w1 (Timeout ?k)) = None"
    by (simp only: to) simp
  show "?k \<notin> fst ` set (stops (step e ?w1 (Timeout ?k)))"
    by (simp only: to) simp
  show "kills (step e ?w1 (Timeout ?k)) = kills w @ [(pid inst, SIGTERM), (pid inst, SIGKILL)]"
    by (simp only: to) (simp add: s1)
  assume alive: "pid inst \<in> set (children w)"
  let ?w0 = "?w1\<lparr>children := filter (\<lambda>q. q \<noteq> pid inst) (children ?w1),
                  listeners := filter (\<lambda>l. fst l \<noteq> pid inst) (listeners ?w1)\<rparr>"
  let ?ls = "map snd (filter (\<lambda>l. fst l = pid inst) (listeners w))"
  let ?v = "foldl (\<lambda>v l. runListener l v) ?w0 ?ls"
  have "children ?w1 = children w" "listeners ?w1 = listeners w @ [(pid inst, StopExit ?k)]"
    by (simp_all only: w1) simp_all
  then have ex: "step e ?w1 (Exit (pid inst)) = drain e (runListener (StopExit ?k) ?v)"
    using alive by (simp only: step.simps onExit_def) simp
  show "currentInstance (step e ?w1 (Exit (pid inst))) = None"
    by (simp only: ex) simp
  show "?k \<notin> fst ` set (stops (step e ?w1 (Exit (pid inst))))"
    by (simp only: ex) simp
  show "?k \<notin> fst ` set (timers (step e ?w1 (Exit (pid inst))))"
    by (simp only: ex) auto
  show "kills (step e ?w1 (Exit (pid inst))) = kills w @ [(pid inst, SIGTERM)]"
    by (simp only: ex) (simp add: s1)
qed



section \<open>The configuration\<close>

lemmas cm_eval =
  truthy_def js_or_def js_nullish_def isArray_def isString_def noArgsArray_def getProp_def
  default_emulatorPath_def targets_def readProjectConfig_def ensurePath_def
  ensureMinimalConfiguration_def applyProjectConfig_def getConfiguration_def
  ensureMinimalConfiguration_string_def getConfiguration_string_def nonblankString_def
  minimalConfig_def

lemma default_paths_nonblank:
  "trim default_emulatorPath \<noteq> []" "trim ''zmac'' \<noteq> []" "trim ''.zout'' \<noteq> []"
  by (simp_all add: default_emulatorPath_def js_eval)

lemma ensurePath_nonblank:
  assumes "ensurePath v d = Inr r" and "trim d \<noteq> []"
  shows "nonblankString r"
  using assms
  by (auto simp: ensurePath_def nonblankString_def split: if_splits option.splits jsval.splits)

lemma ensurePath_returns:
  assumes "v = None \<or> isString v"
  shows "\<exists>r. ensurePath v d = Inr r"
  using assms
  by (auto simp: ensurePath_def isString_def truthy_def split: option.splits jsval.splits)

lemma target_checked:
  "(if \<not> truthy t \<or> t \<notin> set targets then Some (JString ''model3'') else t) \<in> set targets"
  by (simp add: targets_def)

lemma autoAssemble_checked:
  "(if a = None \<or> a = Some JNull then Some (JBool True) else a) \<noteq> None"
  "(if a = None \<or> a = Some JNull then Some (JBool True) else a) \<noteq> Some JNull"
  by simp_all

lemma args_checked:
  "\<not> noArgsArray (if noArgsArray a then Some (JArray [JString ''-m3'']) else a)"
  by (simp add: noArgsArray_def)

lemma string_args_checked:
  "isString (if \<not> isString a then Some (JString []) else a)"
  by (simp add: isString_def)

lemma ensureMinimalConfiguration_minimal:
  assumes "ensureMinimalConfiguration c0 = Inr c"
  shows "minimalConfig c \<and> \<not> noArgsArray (v_emulatorArgs c) \<and>
    (noArgsArray (v_emulatorArgs c0) \<longrightarrow> v_emulatorArgs c = Some (JArray [JString ''-m3'']))"
proof -
  from assms obtain emuPath zPath outDir where
    p: "ensurePath (v_emulatorPath c0) default_emulatorPath = Inr emuPath"
       "ensurePath (v_zmacPath c0) ''zmac'' = Inr zPath"
       "ensurePath (v_outputDir c0) ''.zout'' = Inr outDir"
    by (auto simp: ensureMinimalConfiguration_def split: sum.splits)
  have nb: "nonblankString emuPath" "nonblankString zPath" "nonblankString outDir"
    using p default_paths_nonblank ensurePath_nonblank by blast+
  have f: "v_emulatorPath c = emuPath" "v_zmacPath c = zPath" "v_outputDir c = outDir"
    "v_emulatorArgs c =
       (if noArgsArray (v_emulatorArgs c0) then Some (JArray [JString ''-m3''])
        else v_emulatorArgs c0)"
    "v_target c =
       (if \<not> truthy (v_target c0) \<or> v_target c0 \<notin> set targets
        then Some (JString ''model3'') else v_target c0)"
    "v_autoAssemble c =
       (if v_autoAssemble c0 = None \<or> v_autoAssemble c0 = Some JNull
        then Some (JBool True) else v_autoAssemble c0)"
    using assms by (simp_all only: ensureMinimalConfiguration_def p sum.case) auto
  show ?thesis
    unfolding minimalConfig_def f
    using nb target_checked autoAssemble_checked args_checked by simp
qed

lemma ensureMinimalConfiguration_string_minimal:
  assumes "ensureMinimalConfiguration_string c0 = Inr c"
  shows "minimalConfig c \<and> isString (v_emulatorArgs c)"
proof -
  from assms obtain emuPath zPath outDir where
    p: "ensurePath (v_emulatorPath c0) default_emulatorPath = Inr emuPath"
       "ensurePath (v_zmacPath c0) ''zmac'' = Inr zPath"
       "ensurePath (v_outputDir c0) ''.zout'' = Inr outDir"
    by (auto simp: ensureMinimalConfiguration_string_def split: sum.splits)
  have nb: "nonblankString emuPath" "nonblankString zPath" "nonblankString outDir"
    using p default_paths_nonblank ensurePath_nonblank by blast+
  have f: "v_emulatorPath c = emuPath" "v_zmacPath c = zPath" "v_outputDir c = outDir"
    "v_emulatorArgs c =
       (if \<not> isString (v_emulatorArgs c0) then Some (JString []) else v_emulatorArgs c0)"
    "v_target c =
       (if \<not> truthy (v_target c0) \<or> v_target c0 \<notin> set targets
        then Some (JString ''model3'') else v_target c0)"
    "v_autoAssemble c =
       (if v_autoAssemble c0 = None \<or> v_autoAssemble c0 = Some JNull
        then Some (JBool True) else v_autoAssemble c0)"
    using assms by (simp_all only: ensureMinimalConfiguration_string_def p sum.case) auto
  show ?thesis
    unfolding minimalConfig_def f
    using nb target_checked autoAssemble_checked string_args_checked by simp
qed

lemma ensureMinimalConfiguration_args:
  assumes "ensureMinimalConfiguration c0 = Inr c"
  shows "v_emulatorArgs c =
       (if noArgsArray (v_emulatorArgs c0) then Some (JArray [JString ''-m3''])
        else v_emulatorArgs c0)"
  using assms by (auto simp: ensureMinimalConfiguration_def split: sum.splits)

lemma ensureMinimalConfiguration_returns:
  assumes "ensurePath (v_emulatorPath c0) default_emulatorPath = Inr r1"
    and "ensurePath (v_zmacPath c0) ''zmac'' = Inr r2"
    and "ensurePath (v_outputDir c0) ''.zout'' = Inr r3"
  shows "\<exists>c. ensureMinimalConfiguration c0 = Inr c"
  using assms by (simp add: ensureMinimalConfiguration_def)

lemma js_or_string:
  assumes "v = None \<or> isString v"
  shows "js_or v (Some (JString d)) = Some (JString d) \<or> isString (js_or v (Some (JString d)))"
  using assms by (auto simp: js_or_def truthy_def isString_def)

lemma default_args:
  assumes "noArgsArray s"
  shows "(if noArgsArray (js_or s (Some (JArray [JString ''-m3''])))
          then Some (JArray [JString ''-m3''])
          else js_or s (Some (JArray [JString ''-m3'']))) = Some (JArray [JString ''-m3''])"
  using assms by (cases "truthy s") (simp_all add: js_or_def)

lemma m3_args: "\<not> noArgsArray (Some (JArray [JString ''-m3'']))"
  by (simp add: noArgsArray_def)

lemma checkedConfig_fields:
  assumes "readProjectConfig e = None"
  shows "v_emulatorPath (checkedConfig e) =
           js_or (settings e ''emulatorPath'') (Some (JString default_emulatorPath))"
    "v_zmacPath (checkedConfig e) = js_or (settings e ''zmacPath'') (Some (JString ''zmac''))"
    "v_outputDir (checkedConfig e) =
           js_or (settings e ''defaultOutputDir'') (Some (JString ''.zout''))"
    "v_emulatorArgs (checkedConfig e) =
       (let g = js_or (settings e ''defaultEmulatorArgs'') (Some (JArray [JString ''-m3'']))
        in if noArgsArray g then Some (JArray [JString ''-m3'']) else g)"
  using assms by (simp_all add: checkedConfig_def globalConfig_def Let_def)

lemma configuration_minimal_basic:
  "(\<forall>c. getConfiguration e = Inr c \<longrightarrow>
      minimalConfig c \<and> \<not> noArgsArray (v_emulatorArgs c) \<and>
      (readProjectConfig e = None \<and> noArgsArray (settings e ''defaultEmulatorArgs'') \<longrightarrow>
         v_emulatorArgs c = Some (JArray [JString ''-m3'']))) \<and>
   (\<forall>c. ensureMinimalConfiguration c0 = Inr c \<longrightarrow>
      minimalConfig c \<and> \<not> noArgsArray (v_emulatorArgs c) \<and>
      (noArgsArray (v_emulatorArgs c0) \<longrightarrow> v_emulatorArgs c = Some (JArray [JString ''-m3'']))) \<and>
   (\<forall>c. ensureMinimalConfiguration_string c0 = Inr c \<longrightarrow>
      minimalConfig c \<and> isString (v_emulatorArgs c)) \<and>
   (\<forall>c. getConfiguration_string e = Inr c \<longrightarrow> minimalConfig c \<and> isString (v_emulatorArgs c)) \<and>
   (readProjectConfig e = None \<and>
    (\<forall>k\<in>set [''emulatorPath'', ''zmacPath'', ''defaultOutputDir''].
       settings e k = None \<or> isString (settings e k)) \<longrightarrow>
    (\<exists>c. getConfiguration e = Inr c))"
proof (intro conjI allI impI)
  fix c
  assume g: "getConfiguration e = Inr c"
  then have ch: "ensureMinimalConfiguration (checkedConfig e) = Inr c"
    by (simp add: getConfiguration_def)
  show "minimalConfig c" "\<not> noArgsArray (v_emulatorArgs c)"
    using ensureMinimalConfiguration_minimal [OF ch] by simp_all
  assume d: "readProjectConfig e = None \<and> noArgsArray (settings e ''defaultEmulatorArgs'')"
  show "v_emulatorArgs c = Some (JArray [JString ''-m3''])"
  proof -
    from d have "v_emulatorArgs (checkedConfig e) = Some (JArray [JString ''-m3''])"
      using checkedConfig_fields(4) [of e] default_args [of "settings e ''defaultEmulatorArgs''"]
      by (simp only: Let_def)
    then show ?thesis
      using ensureMinimalConfiguration_args [OF ch] m3_args by simp
  qed
next
  fix c
  assume m: "ensureMinimalConfiguration c0 = Inr c"
  from ensureMinimalConfiguration_minimal [OF m]
  show "minimalConfig c" "\<not> noArgsArray (v_emulatorArgs c)" by simp_all
  assume "noArgsArray (v_emulatorArgs c0)"
  then show "v_emulatorArgs c = Some (JArray [JString ''-m3''])"
    using ensureMinimalConfiguration_args [OF m] by simp
next
  fix c
  assume "ensureMinimalConfiguration_string c0 = Inr c"
  from ensureMinimalConfiguration_string_minimal [OF this]
  show "minimalConfig c" "isString (v_emulatorArgs c)" by simp_all
next
  fix c
  assume "getConfiguration_string e = Inr c"
  then obtain c1 where "ensureMinimalConfiguration_string c1 = Inr c"
    by (simp add: getConfiguration_string_def Let_def split: if_splits)
  from ensureMinimalConfiguration_string_minimal [OF this]
  show "minimalConfig c" "isString (v_emulatorArgs c)" by simp_all
next
  assume a: "readProjectConfig e = None \<and>
    (\<forall>k\<in>set [''emulatorPath'', ''zmacPath'', ''defaultOutputDir''].
       settings e k = None \<or> isString (settings e k))"
  have s: "\<exists>r. ensurePath (js_or v (Some (JString d))) d' = Inr r"
    if "v = None \<or> isString v" for v d d'
    using js_or_string [OF that, of d] ensurePath_returns [of "js_or v (Some (JString d))" d']
    by (auto simp: isString_def)
  from a have k: "settings e ''emulatorPath'' = None \<or> isString (settings e ''emulatorPath'')"
    "settings e ''zmacPath'' = None \<or> isString (settings e ''zmacPath'')"
    "settings e ''defaultOutputDir'' = None \<or> isString (settings e ''defaultOutputDir'')"
    by simp_all
  from a obtain r1 r2 r3 where
    "ensurePath (v_emulatorPath (checkedConfig e)) default_emulatorPath = Inr r1"
    "ensurePath (v_zmacPath (checkedConfig e)) ''zmac'' = Inr r2"
    "ensurePath (v_outputDir (checkedConfig e)) ''.zout'' = Inr r3"
    using s [OF k(1)] s [OF k(2)] s [OF k(3)] checkedConfig_fields(1,2,3) [of e] by metis
  then show "\<exists>c. getConfiguration e = Inr c"
    using ensureMinimalConfiguration_returns by (simp add: getConfiguration_def)
qed

lemma ensurePath_pathLike: "(\<exists>r. ensurePath v d = Inr r) = pathLike v"
  by (auto simp: ensurePath_def pathLike_def isString_def split: option.splits jsval.splits)

lemma ensureMinimalConfiguration_returns_iff:
  "(\<exists>c. ensureMinimalConfiguration c0 = Inr c) =
     (pathLike (v_emulatorPath c0) \<and> pathLike (v_zmacPath c0) \<and> pathLike (v_outputDir c0))"
proof
  assume "\<exists>c. ensureMinimalConfiguration c0 = Inr c"
  then obtain r1 r2 r3 where
    "ensurePath (v_emulatorPath c0) default_emulatorPath = Inr r1"
    "ensurePath (v_zmacPath c0) ''zmac'' = Inr r2"
    "ensurePath (v_outputDir c0) ''.zout'' = Inr r3"
    by (auto simp: ensureMinimalConfiguration_def split: sum.splits)
  then show "pathLike (v_emulatorPath c0) \<and> pathLike (v_zmacPath c0) \<and> pathLike (v_outputDir c0)"
    using ensurePath_pathLike by blast
next
  assume "pathLike (v_emulatorPath c0) \<and> pathLike (v_zmacPath c0) \<and> pathLike (v_outputDir c0)"
  then obtain r1 r2 r3 where
    "ensurePath (v_emulatorPath c0) default_emulatorPath = Inr r1"
    "ensurePath (v_zmacPath c0) ''zmac'' = Inr r2"
    "ensurePath (v_outputDir c0) ''.zout'' = Inr r3"
    using ensurePath_pathLike by blast
  then show "\<exists>c. ensureMinimalConfiguration c0 = Inr c"
    by (rule ensureMinimalConfiguration_returns)
qed

lemma pathLike_js_or: "pathLike (js_or v (Some (JString d))) = pathLike v"
  by (simp add: pathLike_def js_or_def isString_def)

lemma applyProjectConfig_fields:
  "v_emulatorPath (applyProjectConfig pc g) = v_emulatorPath g"
  "v_zmacPath (applyProjectConfig pc g) = v_zmacPath g"
  "v_outputDir (applyProjectConfig pc g) =
     (if pc = JNull then v_outputDir g
      else case getProp pc ''outputDir'' of None \<Rightarrow> v_outputDir g | Some v \<Rightarrow> Some v)"
  "v_emulatorArgs (applyProjectConfig pc g) =
     (if pc \<noteq> JNull \<and> isArray (getProp pc ''emulatorArgs'') then getProp pc ''emulatorArgs''
      else v_emulatorArgs g)"
  by (simp_all add: applyProjectConfig_def Let_def isArray_def split: option.splits jsval.splits)

lemma globalConfig_fields:
  "v_emulatorPath (globalConfig e) =
     js_or (settings e ''emulatorPath'') (Some (JString default_emulatorPath))"
  "v_zmacPath (globalConfig e) = js_or (settings e ''zmacPath'') (Some (JString ''zmac''))"
  "v_outputDir (globalConfig e) =
     js_or (settings e ''defaultOutputDir'') (Some (JString ''.zout''))"
  "v_emulatorArgs (globalConfig e) =
     js_or (settings e ''defaultEmulatorArgs'') (Some (JArray [JString ''-m3'']))"
  by (simp_all add: globalConfig_def Let_def)

lemma checkedConfig_paths:
  "v_emulatorPath (checkedConfig e) =
     js_or (settings e ''emulatorPath'') (Some (JString default_emulatorPath))"
  "v_zmacPath (checkedConfig e) = js_or (settings e ''zmacPath'') (Some (JString ''zmac''))"
  "v_outputDir (checkedConfig e) =
     (case projectProp e ''outputDir'' of
        None \<Rightarrow> js_or (settings e ''defaultOutputDir'') (Some (JString ''.zout''))
      | Some v \<Rightarrow> Some v)"
  by (simp_all add: checkedConfig_def Let_def projectProp_def applyProjectConfig_fields
      globalConfig_fields split: option.splits)

lemma checkedConfig_args:
  "v_emulatorArgs (checkedConfig e) =
     (if isArray (projectProp e ''emulatorArgs'')
      then (if noArgsArray (projectProp e ''emulatorArgs'') then Some (JArray [JString ''-m3''])
            else projectProp e ''emulatorArgs'')
      else if noArgsArray (settings e ''defaultEmulatorArgs'') then Some (JArray [JString ''-m3''])
      else settings e ''defaultEmulatorArgs'')"
proof -
  have n: "isArray None = False" by (simp add: isArray_def)
  have j: "(if noArgsArray (js_or s (Some (JArray [JString ''-m3''])))
          then Some (JArray [JString ''-m3''])
          else js_or s (Some (JArray [JString ''-m3'']))) =
       (if noArgsArray s then Some (JArray [JString ''-m3'']) else s)" for s
  proof (cases "truthy s")
    case True
    then show ?thesis by (simp add: js_or_def)
  next
    case False
    then have "noArgsArray s"
      by (auto simp: truthy_def noArgsArray_def split: option.splits jsval.splits)
    with False show ?thesis using m3_args by (simp add: js_or_def)
  qed
  define merged where "merged =
     (case readProjectConfig e of
        None \<Rightarrow> globalConfig e
      | Some projectCfg \<Rightarrow> applyProjectConfig projectCfg (globalConfig e))"
  have c: "v_emulatorArgs (checkedConfig e) =
      (if noArgsArray (v_emulatorArgs merged) then Some (JArray [JString ''-m3''])
       else v_emulatorArgs merged)"
    by (simp add: checkedConfig_def Let_def merged_def)
  have mm: "v_emulatorArgs merged =
      (if isArray (projectProp e ''emulatorArgs'') then projectProp e ''emulatorArgs''
       else js_or (settings e ''defaultEmulatorArgs'') (Some (JArray [JString ''-m3''])))"
    by (cases "readProjectConfig e")
      (simp_all add: merged_def projectProp_def applyProjectConfig_fields globalConfig_fields n)
  show ?thesis
  proof (cases "isArray (projectProp e ''emulatorArgs'')")
    case True
    then show ?thesis unfolding c mm by simp
  next
    case False
    then have "v_emulatorArgs (checkedConfig e) =
        (if noArgsArray (js_or (settings e ''defaultEmulatorArgs'')
                           (Some (JArray [JString ''-m3''])))
         then Some (JArray [JString ''-m3''])
         else js_or (settings e ''defaultEmulatorArgs'') (Some (JArray [JString ''-m3''])))"
      unfolding c mm by simp
    also have "\<dots> = (if noArgsArray (settings e ''defaultEmulatorArgs'')
         then Some (JArray [JString ''-m3'']) else settings e ''defaultEmulatorArgs'')"
      by (rule j)
    finally show ?thesis using False by simp
  qed
qed

lemma getConfiguration_args:
  assumes "getConfiguration e = Inr c"
  shows "v_emulatorArgs c =
     (if isArray (projectProp e ''emulatorArgs'')
      then (if noArgsArray (projectProp e ''emulatorArgs'') then Some (JArray [JString ''-m3''])
            else projectProp e ''emulatorArgs'')
      else if noArgsArray (settings e ''defaultEmulatorArgs'') then Some (JArray [JString ''-m3''])
      else settings e ''defaultEmulatorArgs'')"
proof -
  from assms have ch: "ensureMinimalConfiguration (checkedConfig e) = Inr c"
    by (simp add: getConfiguration_def)
  have "\<not> noArgsArray (v_emulatorArgs (checkedConfig e))"
    unfolding checkedConfig_args using m3_args by simp
  with ensureMinimalConfiguration_args [OF ch] have "v_emulatorArgs c = v_emulatorArgs (checkedConfig e)"
    by simp
  then show ?thesis by (simp only: checkedConfig_args)
qed

lemma getConfiguration_returns_iff:
  "(\<exists>c. getConfiguration e = Inr c) =
     (pathLike (settings e ''emulatorPath'') \<and> pathLike (settings e ''zmacPath'') \<and>
      pathLike (case projectProp e ''outputDir'' of
                  None \<Rightarrow> settings e ''defaultOutputDir''
                | Some v \<Rightarrow> Some v))"
  unfolding getConfiguration_def ensureMinimalConfiguration_returns_iff checkedConfig_paths
  by (simp add: pathLike_js_or split: option.splits)

lemma ensureMinimalConfiguration_string_args:
  assumes "ensureMinimalConfiguration_string c0 = Inr c"
  shows "v_emulatorArgs c =
       (if isString (v_emulatorArgs c0) then v_emulatorArgs c0 else Some (JString []))"
  using assms by (auto simp: ensureMinimalConfiguration_string_def split: sum.splits)

text \<open>
  C10, as amended: every configuration that \<open>getConfiguration\<close> returns has an emulator
  path, a zmac path and an output directory that are strings with something other than
  white space in them, a target among \<open>model1\<close>, \<open>model3\<close> and \<open>model4\<close>, and a value of
  \<open>autoAssemble\<close> that is neither \<open>undefined\<close> nor \<open>null\<close>. Its emulator arguments are a
  list that is not empty, of elements that are not looked at: the list of the project
  configuration when that is a list, else the list of the settings, and \<open>['-m3']\<close> in
  place of a list that is empty or a value that is no list. The same holds of what
  \<open>ensureMinimalConfiguration\<close> returns for any configuration. In the edition whose
  emulator arguments are a string, they are a string, the empty one where
  \<open>ensureMinimalConfiguration\<close> is given none. \<open>getConfiguration\<close> returns a
  configuration exactly when the paths of the settings and the output directory of
  the project configuration, where it has one, are strings or count as false; so it
  does without a project configuration (no workspace folder, no file, a file that
  cannot be read or parsed) when the three paths of the settings are missing or
  strings.
\<close>

theorem configuration_is_minimal:
  "(\<forall>c. getConfiguration e = Inr c \<longrightarrow>
      minimalConfig c \<and> \<not> noArgsArray (v_emulatorArgs c) \<and>
      (readProjectConfig e = None \<and> noArgsArray (settings e ''defaultEmulatorArgs'') \<longrightarrow>
         v_emulatorArgs c = Some (JArray [JString ''-m3'']))) \<and>
   (\<forall>c. ensureMinimalConfiguration c0 = Inr c \<longrightarrow>
      minimalConfig c \<and> \<not> noArgsArray (v_emulatorArgs c) \<and>
      (noArgsArray (v_emulatorArgs c0) \<longrightarrow> v_emulatorArgs c = Some (JArray [JString ''-m3'']))) \<and>
   (\<forall>c. ensureMinimalConfiguration_string c0 = Inr c \<longrightarrow>
      minimalConfig c \<and> isString (v_emulatorArgs c)) \<and>
   (\<forall>c. getConfiguration_string e = Inr c \<longrightarrow> minimalConfig c \<and> isString (v_emulatorArgs c)) \<and>
   (readProjectConfig e = None \<and>
    (\<forall>k\<in>set [''emulatorPath'', ''zmacPath'', ''defaultOutputDir''].
       settings e k = None \<or> isString (settings e k)) \<longrightarrow>
    (\<exists>c. getConfiguration e = Inr c)) \<and>
   (\<forall>c. getConfiguration e = Inr c \<longrightarrow>
      v_emulatorArgs c =
        (if isArray (projectProp e ''emulatorArgs'')
         then (if noArgsArray (projectProp e ''emulatorArgs'')
               then Some (JArray [JString ''-m3'']) else projectProp e ''emulatorArgs'')
         else if noArgsArray (settings e ''defaultEmulatorArgs'')
         then Some (JArray [JString ''-m3''])
         else settings e ''defaultEmulatorArgs'')) \<and>
   (\<forall>c. ensureMinimalConfiguration c0 = Inr c \<longrightarrow>
      v_emulatorArgs c =
        (if noArgsArray (v_emulatorArgs c0) then Some (JArray [JString ''-m3''])
         else v_emulatorArgs c0)) \<and>
   (\<forall>c. ensureMinimalConfiguration_string c0 = Inr c \<longrightarrow>
      v_emulatorArgs c =
        (if isString (v_emulatorArgs c0) then v_emulatorArgs c0 else Some (JString []))) \<and>
   ((\<exists>c. getConfiguration e = Inr c) =
      (pathLike (settings e ''emulatorPath'') \<and> pathLike (settings e ''zmacPath'') \<and>
       pathLike (case projectProp e ''outputDir'' of
                   None \<Rightarrow> settings e ''defaultOutputDir''
                 | Some v \<Rightarrow> Some v)))"
proof -
  note b = configuration_minimal_basic [of e c0]
  have A: "\<forall>c. getConfiguration e = Inr c \<longrightarrow>
      v_emulatorArgs c =
        (if isArray (projectProp e ''emulatorArgs'')
         then (if noArgsArray (projectProp e ''emulatorArgs'')
               then Some (JArray [JString ''-m3'']) else projectProp e ''emulatorArgs'')
         else if noArgsArray (settings e ''defaultEmulatorArgs'')
         then Some (JArray [JString ''-m3''])
         else settings e ''defaultEmulatorArgs'')"
    using getConfiguration_args by blast
  have B: "\<forall>c. ensureMinimalConfiguration c0 = Inr c \<longrightarrow>
      v_emulatorArgs c =
        (if noArgsArray (v_emulatorArgs c0) then Some (JArray [JString ''-m3''])
         else v_emulatorArgs c0)"
    using ensureMinimalConfiguration_args by blast
  have C: "\<forall>c. ensureMinimalConfiguration_string c0 = Inr c \<longrightarrow>
      v_emulatorArgs c =
        (if isString (v_emulatorArgs c0) then v_emulatorArgs c0 else Some (JString []))"
    using ensureMinimalConfiguration_string_args by blast
  note D = getConfiguration_returns_iff [of e]
  from b A B C D show ?thesis
    by (elim conjE) (intro conjI; assumption)
qed

section \<open>Witnesses and counterexamples\<close>

text \<open>
  The address \<open>0x6010\<close> is rendered \<open>6010\<close> and read back; the address 255 is rendered
  \<open>FF\<close>, which is no address to the program.
\<close>

theorem address_roundtrip_witness:
  "(0x1000::int) \<le> 0x6010 \<and> (0x6010::int) \<le> 0xFFFF \<and> renderAddress 0x6010 = ''6010'' \<and>
   parseAddress ''6010'' = Some 0x6010 \<and>
   (0::int) \<le> 255 \<and> (255::int) < 0x1000 \<and> renderAddress 255 = ''FF'' \<and>
   parseAddress ''FF'' = None \<and> parseInt ''FF'' 16 = Some 255"
  using address_roundtrip [of "0x6010"] address_roundtrip [of 255]
  by (simp add: renderAddress_def js_eval)

text \<open>
  C9 as stated fails below \<open>0x1000\<close>: the rendering of 255 has two digits, and
  neither the address parsing nor the pattern of the entry marker, on the line a symbol
  file would hold for it, reads it.
\<close>

theorem short_address_counterexample:
  "renderAddress 255 = ''FF'' \<and> parseAddress (renderAddress 255) = None \<and>
   entryMatch (renderAddress 255 @ '' e'') = None \<and>
   entryMatch (''00FF'' @ '' e'') = Some ''00FF''"
  by (simp add: renderAddress_def parseAddress_def js_eval re_eval)

theorem breakpoint_cap_witness:
  "4 < length (resolvedBreakpoints five_env ''/ws/.zout/demo.bds'') \<and>
   length (getBreakpointAddresses five_env ''/ws/.zout/demo.bds'') = 4 \<and>
   map bp_address (getBreakpointAddresses five_env ''/ws/.zout/demo.bds'') =
     [0x6000, 0x6002, 0x6000, 0x6002]"
proof -
  have r: "map bp_address (resolvedBreakpoints five_env ''/ws/.zout/demo.bds'') =
      [0x6000, 0x6002, 0x6000, 0x6002, 0x6000]"
    by (simp add: resolvedBreakpoints_def resolveBreakpoint_def bm_eval
        demo_eval js_eval re_eval)
  have "length (map bp_address (resolvedBreakpoints five_env ''/ws/.zout/demo.bds'')) = 5"
    by (simp only: r) simp
  then have h: "4 < length (resolvedBreakpoints five_env ''/ws/.zout/demo.bds'')"
    by simp
  have "map bp_address (take 4 (resolvedBreakpoints five_env ''/ws/.zout/demo.bds'')) =
      [0x6000, 0x6002, 0x6000, 0x6002]"
    by (simp only: take_map [symmetric] r) simp
  then show ?thesis
    using breakpoint_cap [of five_env "''/ws/.zout/demo.bds''" "[]"] h by simp
qed


text \<open>
  The entry marker of \<open>entry_bds\<close> is at \<open>0x5000\<close>; the symbols \<open>start\<close> and \<open>main\<close> are
  elsewhere.
\<close>

theorem entry_point_priority_witness:
  "readFileSync entry_env ''/ws/.zout/demo.bds'' = Some entry_bds \<and>
   split_lines entry_bds = [''6000 a start''] @ ''5000 e'' # [''6003 a main''] \<and>
   entryMatch (trim ''6000 a start'') = None \<and>
   entryMatch (trim ''5000 e'') = Some ''5000'' \<and>
   getEntryPoint entry_env ''/ws/.zout/demo.bds'' = Some 0x5000 \<and>
   getBreakpointAddresses entry_env ''/ws/.zout/demo.bds'' = [] \<and>
   snd (prepareEmulatorArgs entry_env demo_config
          \<lparr>success = True, stdout = [], stderr = [],
           outputFiles = \<lparr>bds = Some ''/ws/.zout/demo.bds'', cmd = None, lst = None\<rparr>,
           errors = []\<rparr> True) = [''-b'', ''5000''] \<and>
   bds (outputFiles (entry_result\<lparr>outputFiles := \<lparr>bds = None, cmd = None, lst = None\<rparr>\<rparr>)) =
     None \<and>
   snd (prepareEmulatorArgs entry_env demo_config
          (entry_result\<lparr>outputFiles := \<lparr>bds = None, cmd = None, lst = None\<rparr>\<rparr>) True) = []"
proof -
  let ?r = "\<lparr>success = True, stdout = [], stderr = [],
           outputFiles = \<lparr>bds = Some ''/ws/.zout/demo.bds'', cmd = None, lst = None\<rparr>,
           errors = []\<rparr>"
  have h1: "readFileSync entry_env ''/ws/.zout/demo.bds'' = Some entry_bds"
    by (simp add: readFileSync_def entry_env_def demo_env_def)
  have h2: "split_lines entry_bds = [''6000 a start''] @ ''5000 e'' # [''6003 a main'']"
    by (simp add: entry_bds_def unlines_def split_lines_def)
  have h3: "\<forall>x\<in>set [''6000 a start'']. entryMatch (trim x) = None"
    by (simp add: js_eval re_eval)
  have h4: "entryMatch (trim ''5000 e'') = Some ''5000''"
    by (simp add: js_eval re_eval)
  have h5: "getBreakpointAddresses entry_env ''/ws/.zout/demo.bds'' = []"
    by (simp add: getBreakpointAddresses_def entry_env_def demo_env_def)
  note T = entry_point_priority [OF h1, of ?r demo_config]
  have v: "int (digits_value 16 0 ''5000'') = 0x5000"
    by (simp add: js_eval)
  from T h2 h3 h4 have e: "getEntryPoint entry_env ''/ws/.zout/demo.bds'' = Some 0x5000"
    unfolding v [symmetric] by blast
  have h6: "''/ws/.zout/demo.bds'' \<noteq> []" by simp
  from T h5 h6 have "snd (prepareEmulatorArgs entry_env demo_config ?r True) =
      (case getEntryPoint entry_env ''/ws/.zout/demo.bds'' of
         Some entryPoint \<Rightarrow> [''-b'', renderAddress entryPoint]
       | None \<Rightarrow> [])"
    by simp
  then have "snd (prepareEmulatorArgs entry_env demo_config ?r True) = [''-b'', ''5000'']"
    by (simp add: e renderAddress_def js_eval)
  moreover have n: "bds (outputFiles (entry_result\<lparr>outputFiles :=
      \<lparr>bds = None, cmd = None, lst = None\<rparr>\<rparr>)) = None"
    by simp
  moreover from entry_point_priority [OF h1,
      of "entry_result\<lparr>outputFiles := \<lparr>bds = None, cmd = None, lst = None\<rparr>\<rparr>" demo_config] n
  have "snd (prepareEmulatorArgs entry_env demo_config
          (entry_result\<lparr>outputFiles := \<lparr>bds = None, cmd = None, lst = None\<rparr>\<rparr>) True) = []"
    by blast
  ultimately show ?thesis using h1 h2 h3 h4 h5 e by simp
qed

text \<open>
  C4 as stated fails where a symbol is labelled \<open>main\<close> in another letter case: the
  symbol file of \<open>main_env\<close> has no entry marker and the symbols \<open>start\<close> at \<open>0x5000\<close>
  and \<open>MAIN\<close> at \<open>0x6000\<close>, none labelled \<open>main\<close>; the entry point is \<open>0x6000\<close>, not the
  address of the first symbol. It fails too where it has the flag passed to the
  emulator: in \<open>entry_env\<close>, with the entry marker at \<open>0x5000\<close> and no breakpoint, the
  flag is prepared, and \<open>TRS80Commands.startEmulator\<close> throws before a child is spawned.
\<close>

theorem entry_point_main_counterexample:
  "readFileSync main_env ''/ws/.zout/demo.bds'' = Some main_bds \<and>
   entryScan (split_lines main_bds) = None \<and>
   map label (parseBdsFile main_env ''/ws/.zout/demo.bds'') = [''start'', ''MAIN''] \<and>
   map address (parseBdsFile main_env ''/ws/.zout/demo.bds'') = [0x5000, 0x6000] \<and>
   getEntryPoint main_env ''/ws/.zout/demo.bds'' = Some 0x6000 \<and>
   performAssembly entry_env ''/ws/demo.a80'' demo_config = (Inr (Some entry_result), []) \<and>
   prepareEmulatorArgs entry_env demo_config entry_result True =
     ([''-m3''], [''-b'', ''5000'']) \<and>
   startEmulator_command demo_config entry_result ''/ws/demo.a80'' [''-m3''] [''-b'', ''5000'']
       True =
     Inl ''TypeError: emulatorArgs.trim is not a function''"
proof -
  have m: "readFileSync main_env ''/ws/.zout/demo.bds'' = Some main_bds \<and>
     entryScan (split_lines main_bds) = None \<and>
     map label (parseBdsFile main_env ''/ws/.zout/demo.bds'') = [''start'', ''MAIN''] \<and>
     map address (parseBdsFile main_env ''/ws/.zout/demo.bds'') = [0x5000, 0x6000] \<and>
     getEntryPoint main_env ''/ws/.zout/demo.bds'' = Some 0x6000"
    by (simp add: bm_eval demo_eval js_eval re_eval)
  have a: "performAssembly entry_env ''/ws/demo.a80'' demo_config =
      (Inr (Some entry_result), [])"
    by (simp add: performAssembly_def needsAssembly_def getOutputFiles_def existsSync_def
        statMtimeMs_def Let_def demo_eval)
  have g: "getEntryPoint entry_env ''/ws/.zout/demo.bds'' = Some 0x5000"
    by (simp add: bm_eval demo_eval js_eval re_eval)
  have b: "getBreakpointAddresses entry_env ''/ws/.zout/demo.bds'' = []"
    by (simp add: getBreakpointAddresses_def entry_env_def demo_env_def)
  have p: "prepareEmulatorArgs entry_env demo_config entry_result True =
      ([''-m3''], [''-b'', ''5000''])"
    by (simp add: prepareEmulatorArgs_def entry_result_def demo_config_def g b js_eval)
  have s: "startEmulator_command demo_config entry_result ''/ws/demo.a80'' [''-m3'']
      [''-b'', ''5000''] True = Inl ''TypeError: emulatorArgs.trim is not a function''"
    by (simp add: startEmulator_command_def startEmulator_actuals_def userArgsOf_def
        entry_result_def)
  show ?thesis using m a p s by simp
qed

text \<open>
  The source file of \<open>demo_env\<close> is older than the \<open>.bds\<close> file, that of \<open>stale_env\<close> is
  newer.
\<close>

theorem unchanged_source_is_not_assembled_witness:
  "workspaceFolder demo_env = Some ''/ws'' \<and>
   statMtimeMs demo_env ''/ws/demo.a80'' = Some 1000 \<and>
   statMtimeMs demo_env ''/ws/.zout/demo.bds'' = Some 2000 \<and>
   existsSync demo_env ''/ws/.zout'' \<and>
   snd (performAssembly demo_env ''/ws/demo.a80'' demo_config) = [] \<and>
   fst (performAssembly demo_env ''/ws/demo.a80'' demo_config) =
     Inr (Some \<lparr>success = True, stdout = [], stderr = [],
                 outputFiles = \<lparr>bds = Some ''/ws/.zout/demo.bds'',
                                cmd = Some ''/ws/.zout/demo.cmd'',
                                lst = Some ''/ws/.zout/demo.lst''\<rparr>,
                 errors = []\<rparr>) \<and>
   statMtimeMs stale_env ''/ws/demo.a80'' = Some 3000 \<and>
   snd (performAssembly stale_env ''/ws/demo.a80'' demo_config) =
     [(''zmac'', [''--od'', ''/ws/.zout'', ''/ws/demo.a80''])]"
proof -
  have a1: "workspaceFolder demo_env = Some ''/ws''" "workspaceFolder stale_env = Some ''/ws''"
    by (simp_all add: demo_env_def stale_env_def)
  have a2: "''/ws/.zout/demo.bds'' =
      pathJoin demo_env [pathJoin demo_env [''/ws'', outputDir demo_config],
        baseName demo_env ''/ws/demo.a80'' @ ''.bds'']"
    "''/ws/.zout/demo.bds'' =
      pathJoin stale_env [pathJoin stale_env [''/ws'', outputDir demo_config],
        baseName stale_env ''/ws/demo.a80'' @ ''.bds'']"
    by (simp_all add: demo_eval)
  have a3: "statMtimeMs demo_env ''/ws/demo.a80'' = Some 1000"
    "statMtimeMs stale_env ''/ws/demo.a80'' = Some 3000"
    by (simp_all add: statMtimeMs_def demo_eval)
  have a4: "statMtimeMs demo_env ''/ws/.zout/demo.bds'' = Some 2000"
    "statMtimeMs stale_env ''/ws/.zout/demo.bds'' = Some 2000"
    by (simp_all add: statMtimeMs_def demo_eval)
  have a5: "existsSync demo_env (pathJoin demo_env [''/ws'', outputDir demo_config])"
    "existsSync stale_env (pathJoin stale_env [''/ws'', outputDir demo_config])"
    by (simp_all add: existsSync_def demo_eval)
  have "snd (performAssembly demo_env ''/ws/demo.a80'' demo_config) = []"
    using unchanged_source_is_not_assembled [OF a1(1) a2(1) a3(1) a4(1) a5(1)] by simp
  moreover have "\<exists>args. snd (performAssembly stale_env ''/ws/demo.a80'' demo_config) =
      [(zmacPath demo_config, args)]"
    using unchanged_source_is_not_assembled [OF a1(2) a2(2) a3(2) a4(2) a5(2)] by simp
  moreover have "fst (performAssembly demo_env ''/ws/demo.a80'' demo_config) =
     Inr (Some \<lparr>success = True, stdout = [], stderr = [],
                 outputFiles = \<lparr>bds = Some ''/ws/.zout/demo.bds'',
                                cmd = Some ''/ws/.zout/demo.cmd'',
                                lst = Some ''/ws/.zout/demo.lst''\<rparr>,
                 errors = []\<rparr>)"
    by (simp add: za_eval bm_eval demo_eval)
  moreover have "snd (performAssembly stale_env ''/ws/demo.a80'' demo_config) =
     [(''zmac'', [''--od'', ''/ws/.zout'', ''/ws/demo.a80''])]"
    by (simp add: performAssembly_def assemble_def needsAssembly_def Let_def bm_eval demo_eval)
  ultimately show ?thesis using a1 a3 a4 a5 by (simp add: demo_eval)
qed

text \<open>
  The assembler of \<open>warn_env\<close> exits with code 0 and a line on standard error from which
  a diagnostic is parsed; that of \<open>nozmac_env\<close> cannot be started; for that of
  \<open>refused_env\<close> \<open>spawn\<close> throws.
\<close>

theorem assemble_success_is_exit_code_witness:
  "workspaceFolder warn_env = Some ''/ws'' \<and>
   existsSync warn_env (pathJoin warn_env [''/ws'', ''.zout'']) \<and>
   runProcess warn_env ''zmac'' [''--od'', ''/ws/.zout'', ''/ws/demo.a80''] =
     Closed (Some 0) [] ''line 3: warning: unused'' \<and>
   map_sum id success (fst (assemble warn_env ''/ws/demo.a80'' ''.zout'' ''zmac'' [])) = Inr True \<and>
   map_sum id errors (fst (assemble warn_env ''/ws/demo.a80'' ''.zout'' ''zmac'' [])) =
     Inr [\<lparr>err_file = ''/ws/demo.a80'', err_line = 3, err_column = None,
           err_message = ''warning: unused'', err_severity = Warning\<rparr>] \<and>
   runProcess nozmac_env ''zmac'' [''--od'', ''/ws/.zout'', ''/ws/demo.a80''] =
     SpawnError ''spawn zmac ENOENT'' \<and>
   map_sum id success (fst (assemble nozmac_env ''/ws/demo.a80'' ''.zout'' ''zmac'' [])) = Inr False \<and>
   map_sum id errors (fst (assemble nozmac_env ''/ws/demo.a80'' ''.zout'' ''zmac'' [])) =
     Inr [\<lparr>err_file = ''/ws/demo.a80'', err_line = 1, err_column = None,
           err_message = ''Failed to start zmac: spawn zmac ENOENT'', err_severity = Error\<rparr>] \<and>
   workspaceFolder refused_env = Some ''/ws'' \<and>
   existsSync refused_env (pathJoin refused_env [''/ws'', ''.zout'']) \<and>
   runProcess refused_env ''zmac'' [''--od'', ''/ws/.zout'', ''/ws/demo.a80''] =
     SpawnThrows ''ERR_INVALID_ARG_VALUE'' \<and>
   fst (assemble refused_env ''/ws/demo.a80'' ''.zout'' ''zmac'' []) = Inl ''ERR_INVALID_ARG_VALUE''"
proof -
  have w1: "workspaceFolder warn_env = Some ''/ws''" "workspaceFolder nozmac_env = Some ''/ws''"
    by (simp_all add: demo_eval)
  have w2:
    "existsSync warn_env (pathJoin warn_env [''/ws'', ''.zout'']) \<or>
       \<not> mkdirThrows warn_env (pathJoin warn_env [''/ws'', ''.zout''])"
    "existsSync nozmac_env (pathJoin nozmac_env [''/ws'', ''.zout'']) \<or>
       \<not> mkdirThrows nozmac_env (pathJoin nozmac_env [''/ws'', ''.zout''])"
    by (simp_all add: existsSync_def demo_eval)
  have w3: "[''--od'', ''/ws/.zout'', ''/ws/demo.a80''] =
      [''--od'', pathJoin warn_env [''/ws'', ''.zout'']] @ [] @ [''/ws/demo.a80'']"
    "[''--od'', ''/ws/.zout'', ''/ws/demo.a80''] =
      [''--od'', pathJoin nozmac_env [''/ws'', ''.zout'']] @ [] @ [''/ws/demo.a80'']"
    by (simp_all add: demo_eval)
  have w4: "runProcess warn_env ''zmac'' [''--od'', ''/ws/.zout'', ''/ws/demo.a80''] =
      Closed (Some 0) [] ''line 3: warning: unused''"
    by (simp add: demo_eval)
  have w5: "runProcess nozmac_env ''zmac'' [''--od'', ''/ws/.zout'', ''/ws/demo.a80''] =
      SpawnError ''spawn zmac ENOENT''"
    by (simp add: demo_eval)
  have w6: "parseZmacErrors ''line 3: warning: unused'' ''/ws/demo.a80'' =
      [\<lparr>err_file = ''/ws/demo.a80'', err_line = 3, err_column = None,
        err_message = ''warning: unused'', err_severity = Warning\<rparr>]"
    by (simp add: za_eval js_eval re_eval split_lines_def)
  have w7: "existsSync warn_env (pathJoin warn_env [''/ws'', ''.zout''])"
    by (simp add: existsSync_def demo_eval)
  from assemble_success_is_exit_code [OF w1(1) w2(1) w3(1), of "''zmac''"] w4
  obtain r where r: "fst (assemble warn_env ''/ws/demo.a80'' ''.zout'' ''zmac'' []) = Inr r"
    "success r = (Some (0::int) = Some 0)"
    "errors r = parseZmacErrors ''line 3: warning: unused'' ''/ws/demo.a80''"
    by blast
  from assemble_success_is_exit_code [OF w1(2) w2(2) w3(2), of "''zmac''"] w5
  obtain r' where r': "fst (assemble nozmac_env ''/ws/demo.a80'' ''.zout'' ''zmac'' []) = Inr r'"
    "\<not> success r'"
    "errors r' =
      [\<lparr>err_file = ''/ws/demo.a80'', err_line = 1, err_column = None,
        err_message = ''Failed to start zmac: '' @ ''spawn zmac ENOENT'', err_severity = Error\<rparr>]"
    by blast
  have x1: "workspaceFolder refused_env = Some ''/ws''"
    by (simp add: demo_eval)
  have x2: "existsSync refused_env (pathJoin refused_env [''/ws'', ''.zout''])"
    by (simp add: existsSync_def demo_eval)
  have x3: "[''--od'', ''/ws/.zout'', ''/ws/demo.a80''] =
      [''--od'', pathJoin refused_env [''/ws'', ''.zout'']] @ [] @ [''/ws/demo.a80'']"
    by (simp add: demo_eval)
  have x4: "runProcess refused_env ''zmac'' [''--od'', ''/ws/.zout'', ''/ws/demo.a80''] =
      SpawnThrows ''ERR_INVALID_ARG_VALUE''"
    by (simp add: demo_eval)
  from assemble_success_is_exit_code [OF x1 disjI1 [OF x2] x3, of "''zmac''"] x4
  have x5: "fst (assemble refused_env ''/ws/demo.a80'' ''.zout'' ''zmac'' []) =
      Inl ''ERR_INVALID_ARG_VALUE''"
    by blast
  show ?thesis using w1 w4 w5 w6 w7 r r' x1 x2 x4 x5 by simp
qed

text \<open>
  C6 as stated fails where \<open>spawn\<close> throws: with the workspace folder open and
  the output directory there, \<open>assemble\<close> gives no result, its promise is rejected.
\<close>

theorem spawn_throws_counterexample:
  "workspaceFolder refused_env = Some ''/ws'' \<and>
   existsSync refused_env (pathJoin refused_env [''/ws'', ''.zout'']) \<and>
   runProcess refused_env ''zmac'' [''--od'', ''/ws/.zout'', ''/ws/demo.a80''] =
     SpawnThrows ''ERR_INVALID_ARG_VALUE'' \<and>
   assemble refused_env ''/ws/demo.a80'' ''.zout'' ''zmac'' [] =
     (Inl ''ERR_INVALID_ARG_VALUE'', [(''zmac'', [''--od'', ''/ws/.zout'', ''/ws/demo.a80''])])"
  by (simp add: assemble_def existsSync_def Let_def demo_eval)

text \<open>
  Stopping the running emulator of \<open>running_world\<close>, by its exit and by the timer, and
  stopping with no emulator.
\<close>

theorem stop_paths_witness:
  "ready running_world = [] \<and>
   currentInstance running_world = Some demo_instance \<and>
   \<not> killThrows demo_env (pid demo_instance) SIGTERM \<and>
   pid demo_instance \<in> set (children running_world) \<and>
   timers (step demo_env running_world CallStop) = [(2, 1, 2000)] \<and>
   currentInstance (run demo_env running_world [CallStop, Exit 1]) = None \<and>
   kills (run demo_env running_world [CallStop, Exit 1]) = [(1, SIGTERM)] \<and>
   currentInstance (run demo_env running_world [CallStop, Timeout 2]) = None \<and>
   kills (run demo_env running_world [CallStop, Timeout 2]) = [(1, SIGTERM), (1, SIGKILL)] \<and>
   ready idle_world = [] \<and> currentInstance idle_world = None \<and>
   step demo_env idle_world CallStop = idle_world"
proof -
  have a: "ready running_world = []" "ready idle_world = []"
    by (simp_all add: running_world_def idle_world_def)
  have b: "\<forall>k\<in>fst ` set (stops running_world) \<union> fst ` set (timers running_world).
      k < fresh running_world"
    "\<forall>k\<in>fst ` set (stops idle_world) \<union> fst ` set (timers idle_world). k < fresh idle_world"
    by (simp_all add: running_world_def idle_world_def)
  have c: "currentInstance running_world = Some demo_instance"
    "\<not> killThrows demo_env (pid demo_instance) SIGTERM"
    "pid demo_instance \<in> set (children running_world)"
    "currentInstance idle_world = None"
    by (simp_all add: running_world_def idle_world_def demo_env_def demo_instance_def)
  have f: "fresh running_world = 2" "pid demo_instance = 1"
    by (simp_all add: running_world_def demo_instance_def)
  note T = stop_paths [OF a(1) b(1), of demo_env]
  note I = stop_paths [OF a(2) b(2), of demo_env]
  have i: "step demo_env idle_world CallStop = idle_world"
    using I c(4) by blast
  have t: "timers (step demo_env running_world CallStop) =
        timers running_world @ [(fresh running_world, pid demo_instance, 2000)]"
      "currentInstance (step demo_env (step demo_env running_world CallStop)
        (Timeout (fresh running_world))) = None"
      "kills (step demo_env (step demo_env running_world CallStop) (Timeout (fresh running_world))) =
        kills running_world @ [(pid demo_instance, SIGTERM), (pid demo_instance, SIGKILL)]"
      "currentInstance (step demo_env (step demo_env running_world CallStop)
        (Exit (pid demo_instance))) = None"
      "kills (step demo_env (step demo_env running_world CallStop) (Exit (pid demo_instance))) =
        kills running_world @ [(pid demo_instance, SIGTERM)]"
    using T c(1,2,3) by blast+
  have r: "timers running_world = []" "kills running_world = []"
    by (simp_all add: running_world_def)
  show ?thesis
    using a c i t unfolding f r run_def by simp
qed



lemma ensurePath_examples:
  "ensurePath (Some (JString ''   '')) default_emulatorPath =
     Inr (Some (JString default_emulatorPath))"
  "ensurePath (Some (JString default_emulatorPath)) default_emulatorPath =
     Inr (Some (JString default_emulatorPath))"
  "ensurePath (Some (JString ''zmac'')) ''zmac'' = Inr (Some (JString ''zmac''))"
  "ensurePath (Some (JString ''.zout'')) ''.zout'' = Inr (Some (JString ''.zout''))"
proof -
  have t: "trim ''   '' = []" by (simp add: js_eval)
  have d: "default_emulatorPath \<noteq> []" by (simp add: default_emulatorPath_def)
  show "ensurePath (Some (JString ''   '')) default_emulatorPath =
     Inr (Some (JString default_emulatorPath))"
    by (simp add: ensurePath_def truthy_def t)
  show "ensurePath (Some (JString default_emulatorPath)) default_emulatorPath =
     Inr (Some (JString default_emulatorPath))"
    using default_paths_nonblank(1) d by (simp add: ensurePath_def truthy_def)
  show "ensurePath (Some (JString ''zmac'')) ''zmac'' = Inr (Some (JString ''zmac''))"
    using default_paths_nonblank(2) by (simp add: ensurePath_def truthy_def)
  show "ensurePath (Some (JString ''.zout'')) ''.zout'' = Inr (Some (JString ''.zout''))"
    using default_paths_nonblank(3) by (simp add: ensurePath_def truthy_def)
qed

lemma messy_settings:
  "settings messy_env ''emulatorPath'' = Some (JString ''   '')"
  "settings messy_env ''zmacPath'' = None"
  "settings messy_env ''defaultOutputDir'' = None"
  "settings messy_env ''defaultEmulatorArgs'' = Some (JString ''-m1'')"
  "settings messy_env ''defaultTarget'' = Some (JString ''model9'')"
  "settings messy_env ''autoAssemble'' = Some JNull"
  "settings messy_env ''emulatorArgs'' = None"
  by (simp_all add: messy_env_def)

lemma messy_project: "readProjectConfig messy_env = None"
  by (simp add: readProjectConfig_def demo_eval existsSync_def readFileSync_def)

lemma messy_checked:
  "checkedConfig messy_env =
     default_values\<lparr>v_emulatorPath := Some (JString ''   ''),
                    v_target := Some (JString ''model9''),
                    v_autoAssemble := Some (JBool True)\<rparr>"
proof -
  have "globalConfig messy_env =
     default_values\<lparr>v_emulatorPath := Some (JString ''   ''),
                    v_emulatorArgs := Some (JString ''-m1''),
                    v_target := Some (JString ''model9'')\<rparr>"
    by (simp add: globalConfig_def messy_settings js_or_def js_nullish_def truthy_def
        default_values_def)
  then show ?thesis
    by (simp add: checkedConfig_def messy_project noArgsArray_def default_values_def)
qed

lemma messy_configuration: "getConfiguration messy_env = Inr default_values"
  unfolding getConfiguration_def messy_checked
  by (simp add: ensureMinimalConfiguration_def default_values_def ensurePath_examples
      noArgsArray_def truthy_def targets_def)

lemma default_minimal:
  "ensureMinimalConfiguration (default_values\<lparr>v_emulatorArgs := None\<rparr>) = Inr default_values"
  by (simp add: ensureMinimalConfiguration_def default_values_def ensurePath_examples
      noArgsArray_def truthy_def targets_def)

lemma default_minimal_string:
  "ensureMinimalConfiguration_string (default_values\<lparr>v_emulatorArgs := None\<rparr>) =
     Inr (default_values\<lparr>v_emulatorArgs := Some (JString [])\<rparr>)"
  by (simp add: ensureMinimalConfiguration_string_def default_values_def ensurePath_examples
      isString_def truthy_def targets_def)

lemma messy_configuration_string:
  "getConfiguration_string messy_env =
     Inr (default_values\<lparr>v_emulatorArgs := Some (JString []),
                         v_projectConfig := Some (JObject [])\<rparr>)"
proof -
  have "stringConfig messy_env (JObject []) =
     default_values\<lparr>v_emulatorPath := Some (JString ''   ''),
                    v_emulatorArgs := Some (JString []),
                    v_target := Some (JString ''model9''),
                    v_projectConfig := Some (JObject [])\<rparr>"
    by (simp add: stringConfig_def messy_settings isString_def truthy_def getProp_def
        default_values_def)
  then show ?thesis
    by (simp add: getConfiguration_string_def messy_project
        ensureMinimalConfiguration_string_def default_values_def ensurePath_examples
        isString_def truthy_def targets_def)
qed

lemma project_read: "readProjectConfig project_env = Some project_config"
  by (simp add: readProjectConfig_def project_env_def demo_env_def demo_join_def existsSync_def
      readFileSync_def)

lemma project_props:
  "projectProp project_env ''emulatorArgs'' = Some (JArray [JString ''-m4''])"
  "projectProp project_env ''outputDir'' = Some (JString ''build'')"
  by (simp_all add: projectProp_def project_read getProp_def project_config_def)

lemma project_settings: "settings project_env k = None"
  by (simp add: project_env_def demo_env_def)

lemma project_configuration:
  "getConfiguration project_env =
     Inr (default_values\<lparr>v_outputDir := Some (JString ''build''),
                         v_emulatorArgs := Some (JArray [JString ''-m4'']),
                         v_projectConfig := Some project_config\<rparr>)"
proof -
  have t: "trim ''build'' \<noteq> []" by (simp add: js_eval)
  have "globalConfig project_env = default_values"
    by (simp add: globalConfig_def project_settings js_or_def js_nullish_def truthy_def
        default_values_def)
  then have "checkedConfig project_env =
     default_values\<lparr>v_outputDir := Some (JString ''build''),
                    v_emulatorArgs := Some (JArray [JString ''-m4'']),
                    v_projectConfig := Some project_config\<rparr>"
    by (simp add: checkedConfig_def project_read applyProjectConfig_def getProp_def
        project_config_def noArgsArray_def default_values_def Let_def)
  then show ?thesis
    unfolding getConfiguration_def
    by (simp add: ensureMinimalConfiguration_def default_values_def ensurePath_examples
        ensurePath_def t noArgsArray_def truthy_def targets_def)
qed

lemma odd_configuration:
  "getConfiguration odd_env =
     Inr (default_values\<lparr>v_emulatorArgs := Some (JArray [JNumber 5, JNull, JObject []])\<rparr>)"
proof -
  have r: "readProjectConfig odd_env = None"
    by (simp add: readProjectConfig_def demo_eval existsSync_def readFileSync_def)
  have "globalConfig odd_env =
     default_values\<lparr>v_emulatorArgs := Some (JArray [JNumber 5, JNull, JObject []])\<rparr>"
    by (simp add: globalConfig_def odd_env_def js_or_def js_nullish_def truthy_def
        default_values_def)
  then have "checkedConfig odd_env =
     default_values\<lparr>v_emulatorArgs := Some (JArray [JNumber 5, JNull, JObject []])\<rparr>"
    by (simp add: checkedConfig_def r noArgsArray_def default_values_def)
  then show ?thesis
    unfolding getConfiguration_def
    by (simp add: ensureMinimalConfiguration_def default_values_def ensurePath_examples
        noArgsArray_def truthy_def targets_def)
qed

text \<open>
  C10 at settings with a blank emulator path, a target that does not exist, a string for
  the list of arguments and \<open>null\<close> for \<open>autoAssemble\<close>, beside a project configuration
  that is not JSON: the configuration returned is the default one. With the project
  configuration of \<open>project_env\<close>, its output directory and its list of arguments are
  returned.
\<close>

theorem configuration_is_minimal_witness:
  "getConfiguration messy_env = Inr default_values \<and>
   readProjectConfig messy_env = None \<and>
   noArgsArray (settings messy_env ''defaultEmulatorArgs'') \<and>
   minimalConfig default_values \<and>
   v_emulatorArgs default_values = Some (JArray [JString ''-m3'']) \<and>
   noArgsArray (v_emulatorArgs (default_values\<lparr>v_emulatorArgs := None\<rparr>)) \<and>
   ensureMinimalConfiguration (default_values\<lparr>v_emulatorArgs := None\<rparr>) = Inr default_values \<and>
   ensureMinimalConfiguration_string (default_values\<lparr>v_emulatorArgs := None\<rparr>) =
     Inr (default_values\<lparr>v_emulatorArgs := Some (JString [])\<rparr>) \<and>
   minimalConfig (default_values\<lparr>v_emulatorArgs := Some (JString [])\<rparr>) \<and>
   getConfiguration_string messy_env =
     Inr (default_values\<lparr>v_emulatorArgs := Some (JString []),
                         v_projectConfig := Some (JObject [])\<rparr>) \<and>
   minimalConfig (default_values\<lparr>v_emulatorArgs := Some (JString []),
                                 v_projectConfig := Some (JObject [])\<rparr>) \<and>
   settings messy_env ''emulatorPath'' = Some (JString ''   '') \<and>
   settings messy_env ''zmacPath'' = None \<and>
   settings messy_env ''defaultOutputDir'' = None \<and>
   getConfiguration project_env =
     Inr (default_values\<lparr>v_outputDir := Some (JString ''build''),
                         v_emulatorArgs := Some (JArray [JString ''-m4'']),
                         v_projectConfig := Some project_config\<rparr>) \<and>
   projectProp project_env ''emulatorArgs'' = Some (JArray [JString ''-m4'']) \<and>
   minimalConfig (default_values\<lparr>v_outputDir := Some (JString ''build''),
                                 v_emulatorArgs := Some (JArray [JString ''-m4'']),
                                 v_projectConfig := Some project_config\<rparr>) \<and>
   pathLike (settings project_env ''emulatorPath'') \<and>
   pathLike (settings project_env ''zmacPath'') \<and>
   pathLike (projectProp project_env ''outputDir'')"
proof -
  have n: "noArgsArray (settings messy_env ''defaultEmulatorArgs'')"
    "noArgsArray (v_emulatorArgs (default_values\<lparr>v_emulatorArgs := None\<rparr>))"
    by (simp_all add: messy_settings noArgsArray_def)
  note T = configuration_is_minimal [of messy_env "default_values\<lparr>v_emulatorArgs := None\<rparr>"]
  have T1: "minimalConfig default_values \<and> \<not> noArgsArray (v_emulatorArgs default_values) \<and>
      (readProjectConfig messy_env = None \<and>
       noArgsArray (settings messy_env ''defaultEmulatorArgs'') \<longrightarrow>
       v_emulatorArgs default_values = Some (JArray [JString ''-m3'']))"
    by (rule T [THEN conjunct1, THEN spec, THEN mp, OF messy_configuration])
  have T3: "minimalConfig (default_values\<lparr>v_emulatorArgs := Some (JString [])\<rparr>) \<and>
      isString (v_emulatorArgs (default_values\<lparr>v_emulatorArgs := Some (JString [])\<rparr>))"
    by (rule T [THEN conjunct2, THEN conjunct2, THEN conjunct1, THEN spec, THEN mp,
          OF default_minimal_string])
  have T4: "minimalConfig (default_values\<lparr>v_emulatorArgs := Some (JString []),
                                 v_projectConfig := Some (JObject [])\<rparr>) \<and>
      isString (v_emulatorArgs (default_values\<lparr>v_emulatorArgs := Some (JString []),
                                 v_projectConfig := Some (JObject [])\<rparr>))"
    by (rule T [THEN conjunct2, THEN conjunct2, THEN conjunct2, THEN conjunct1, THEN spec,
          THEN mp, OF messy_configuration_string])
  note P = configuration_is_minimal [of project_env "default_values"]
  have P1: "minimalConfig (default_values\<lparr>v_outputDir := Some (JString ''build''),
                                 v_emulatorArgs := Some (JArray [JString ''-m4'']),
                                 v_projectConfig := Some project_config\<rparr>)"
    using P [THEN conjunct1, THEN spec, THEN mp, OF project_configuration] by (rule conjunct1)
  have "(\<exists>c. getConfiguration project_env = Inr c) =
      (pathLike (settings project_env ''emulatorPath'') \<and>
       pathLike (settings project_env ''zmacPath'') \<and>
       pathLike (case projectProp project_env ''outputDir'' of
                   None \<Rightarrow> settings project_env ''defaultOutputDir''
                 | Some v \<Rightarrow> Some v))"
    by (rule P [THEN conjunct2, THEN conjunct2, THEN conjunct2, THEN conjunct2, THEN conjunct2,
          THEN conjunct2, THEN conjunct2, THEN conjunct2])
  then have P2: "pathLike (settings project_env ''emulatorPath'') \<and>
       pathLike (settings project_env ''zmacPath'') \<and>
       pathLike (projectProp project_env ''outputDir'')"
    using project_configuration by (simp add: project_props)
  show ?thesis
    using T1 T3 T4 P1 P2 n messy_configuration messy_project default_minimal
      default_minimal_string messy_configuration_string messy_settings(1,2,3)
      project_configuration project_props(1)
    by simp
qed

text \<open>
  C10 as stated fails for the type of the emulator arguments and for their
  default: a list of the settings whose elements are no strings is returned as it is,
  and \<open>ensureMinimalConfiguration\<close> of the edition with a string of arguments puts the
  empty string, not \<open>-m3\<close>, where there are none.
\<close>

theorem unchecked_arguments_counterexample:
  "settings odd_env ''defaultEmulatorArgs'' = Some (JArray [JNumber 5, JNull, JObject []]) \<and>
   getConfiguration odd_env =
     Inr (default_values\<lparr>v_emulatorArgs := Some (JArray [JNumber 5, JNull, JObject []])\<rparr>) \<and>
   \<not> stringArray (Some (JArray [JNumber 5, JNull, JObject []])) \<and>
   ensureMinimalConfiguration_string (default_values\<lparr>v_emulatorArgs := None\<rparr>) =
     Inr (default_values\<lparr>v_emulatorArgs := Some (JString [])\<rparr>)"
  using odd_configuration default_minimal_string
  by (simp add: odd_env_def stringArray_def isString_def)



end
